theory Spec2Isabelle
  imports Complex_Main "HOL-Library.AList" "HOL-Library.Product_Lexorder"
begin

section \<open>Conventions of the embedding\<close>

text \<open>
  The optimization engine is Python. Its values are embedded as follows.
  \<^item> A Python \<open>float\<close> is a \<open>rat\<close>: arithmetic is exact, and \<open>round(x, 2)\<close> is
    rounding to two decimals with ties to even. Binary rounding error of the
    machine floats is outside the model.
  \<^item> A Python \<open>int\<close> is an \<open>int\<close>.
  \<^item> A \<open>dict\<close> is an association list in insertion order: \<open>d[k] = v\<close> is
    \<open>AList.update k v d\<close> (an existing key keeps its position, a new key goes to the
    end), \<open>d.get(k, dflt)\<close> is \<open>dict_get d k dflt\<close>. The reads \<open>d[k]\<close> of the source
    (\<open>employee_hours\<close>, \<open>remaining_capacity\<close>) are \<open>dict_get d k 0\<close>: their keys are
    present, which is proved below, so the default is never taken and no \<open>KeyError\<close>
    is modelled.
  \<^item> An exception is a value \<open>Inl e\<close> of the result type \<open>py_error + 'a\<close>.
  \<^item> The wall clock is an argument \<open>now\<close> of every call that reads it: \<open>now n\<close> is
    what the \<open>n\<close>-th evaluation of \<open>datetime.now()\<close> inside the call returns, in
    seconds.
  \<^item> A recommendation or description built with an f-string is a constructor that
    carries the interpolated values.
\<close>

datatype py_error = ZeroDivisionError | StatisticsError

type_synonym clock = "nat \<Rightarrow> rat"

definition dict_get :: "('k \<times> 'v) list \<Rightarrow> 'k \<Rightarrow> 'v \<Rightarrow> 'v" where
  "dict_get d k dflt = (case map_of d k of Some v \<Rightarrow> v | None \<Rightarrow> dflt)"

definition round_half_even :: "rat \<Rightarrow> int" where
  "round_half_even q =
     (let f = \<lfloor>q\<rfloor>; r = q - of_int f
      in if r < 1 / 2 then f
         else if 1 / 2 < r then f + 1
         else if even f then f else f + 1)"

definition round2 :: "rat \<Rightarrow> rat" where
  "round2 q = of_int (round_half_even (q * 100)) / 100"

definition round1 :: "rat \<Rightarrow> rat" where
  "round1 q = of_int (round_half_even (q * 10)) / 10"

text \<open>\<open>sorted(xs, key=k)\<close> is stable; \<open>sorted(xs, key=k, reverse=True)\<close> sorts
  descending and still keeps the original order of elements with equal keys.\<close>

definition sorted_by :: "('a \<Rightarrow> 'k::linorder) \<Rightarrow> 'a list \<Rightarrow> 'a list" where
  "sorted_by k xs = sort_key k xs"

definition sorted_by_reverse :: "('a \<Rightarrow> 'k::linorder) \<Rightarrow> 'a list \<Rightarrow> 'a list" where
  "sorted_by_reverse k xs = rev (sort_key k (rev xs))"

text \<open>\<open>statistics.mean\<close> raises \<open>StatisticsError\<close> on an empty list.\<close>

definition mean :: "rat list \<Rightarrow> py_error + rat" where
  "mean xs = (if xs = [] then Inl StatisticsError
              else Inr (sum_list xs / of_nat (length xs)))"

section \<open>Shift scheduling (scheduling\_optimizer.py)\<close>

record Employee =
  employee_id :: string
  name :: string
  role :: string
  max_hours_per_week :: rat
  cost_per_hour :: rat
  skills :: "string list"
  availability :: "int list"

record ShiftRequirement =
  time_slot :: int
  req_role :: string
  required_count :: int
  req_priority :: int

record Shift =
  shift_employee_id :: string
  shift_time_slot :: int
  shift_duration_hours :: int
  shift_role :: string
  cost :: rat

datatype sched_recommendation =
    InsufficientCoverage nat
  | NearMaximumHours nat
  | LowUtilization nat
  | LargeVariance int int
  | WellBalanced

record ScheduleResult =
  sched_success :: bool
  shifts :: "Shift list"
  coverage :: "(int \<times> int) list"
  total_cost :: rat
  employee_utilization :: "(string \<times> rat) list"
  sched_recommendations :: "sched_recommendation list"
  sched_execution_time :: rat

text \<open>The instance: \<open>self.employees\<close> and \<open>self.requirements\<close>.\<close>

record SchedulingOptimizer =
  employees :: "Employee list"
  requirements :: "ShiftRequirement list"

definition SchedulingOptimizer_init :: SchedulingOptimizer where
  "SchedulingOptimizer_init = \<lparr>employees = [], requirements = []\<rparr>"

definition add_employee :: "Employee \<Rightarrow> SchedulingOptimizer \<Rightarrow> SchedulingOptimizer" where
  "add_employee e self = self\<lparr>employees := employees self @ [e]\<rparr>"

definition add_requirement :: "ShiftRequirement \<Rightarrow> SchedulingOptimizer \<Rightarrow> SchedulingOptimizer" where
  "add_requirement r self = self\<lparr>requirements := requirements self @ [r]\<rparr>"

text \<open>The local variables of the assignment loop of \<open>optimize\<close>.\<close>

record sched_locals =
  l_shifts :: "Shift list"
  l_coverage :: "(int \<times> int) list"
  l_employee_hours :: "(string \<times> int) list"

text \<open>The conflict scan: some shift already assigned to this employee lies closer
  than \<open>shift_duration\<close> to the requirement's slot.\<close>

definition shift_conflict :: "Shift list \<Rightarrow> string \<Rightarrow> int \<Rightarrow> int \<Rightarrow> bool" where
  "shift_conflict ss eid slot shift_duration =
     list_ex (\<lambda>s. shift_employee_id s = eid \<and> \<bar>shift_time_slot s - slot\<bar> < shift_duration) ss"

definition update_coverage :: "int \<Rightarrow> int \<Rightarrow> (int \<times> int) list \<Rightarrow> (int \<times> int) list" where
  "update_coverage slot shift_duration cov =
     fold (\<lambda>hour c. AList.update hour (dict_get c hour 0 + 1) c)
          [slot .. slot + shift_duration - 1] cov"

definition assign_shift :: "int \<Rightarrow> ShiftRequirement \<Rightarrow> Employee \<Rightarrow> sched_locals \<Rightarrow> sched_locals" where
  "assign_shift shift_duration req e st =
     \<lparr>l_shifts = l_shifts st @
         [\<lparr>shift_employee_id = employee_id e, shift_time_slot = time_slot req,
           shift_duration_hours = shift_duration, shift_role = req_role req,
           cost = of_int shift_duration * cost_per_hour e\<rparr>],
      l_coverage = update_coverage (time_slot req) shift_duration (l_coverage st),
      l_employee_hours =
        AList.update (employee_id e)
          (dict_get (l_employee_hours st) (employee_id e) 0 + shift_duration)
          (l_employee_hours st)\<rparr>"

text \<open>The inner loop over the sorted employees for one requirement; the first test
  is the \<open>break\<close>, the next four are the \<open>continue\<close>s.\<close>

fun assign_employees ::
  "int \<Rightarrow> ShiftRequirement \<Rightarrow> Employee list \<Rightarrow> int \<Rightarrow> sched_locals \<Rightarrow> sched_locals" where
  "assign_employees shift_duration req [] assigned_count st = st"
| "assign_employees shift_duration req (e # es) assigned_count st =
     (if assigned_count \<ge> required_count req then st
      else if req_role req \<notin> set (skills e)
        then assign_employees shift_duration req es assigned_count st
      else if time_slot req \<notin> set (availability e)
        then assign_employees shift_duration req es assigned_count st
      else if of_int (dict_get (l_employee_hours st) (employee_id e) 0 + shift_duration)
                > max_hours_per_week e
        then assign_employees shift_duration req es assigned_count st
      else if shift_conflict (l_shifts st) (employee_id e) (time_slot req) shift_duration
        then assign_employees shift_duration req es assigned_count st
      else assign_employees shift_duration req es (assigned_count + 1)
             (assign_shift shift_duration req e st))"

fun assign_requirements ::
  "int \<Rightarrow> Employee list \<Rightarrow> ShiftRequirement list \<Rightarrow> sched_locals \<Rightarrow> sched_locals" where
  "assign_requirements shift_duration emps [] st = st"
| "assign_requirements shift_duration emps (req # reqs) st =
     assign_requirements shift_duration emps reqs
       (assign_employees shift_duration req emps 0 st)"

text \<open>The utilization loop divides by \<open>max_hours_per_week\<close>.\<close>

fun compute_employee_utilization ::
  "(string \<times> int) list \<Rightarrow> Employee list \<Rightarrow> (string \<times> rat) list \<Rightarrow>
   py_error + (string \<times> rat) list" where
  "compute_employee_utilization hours [] acc = Inr acc"
| "compute_employee_utilization hours (e # es) acc =
     (if max_hours_per_week e = 0 then Inl ZeroDivisionError
      else compute_employee_utilization hours es
             (AList.update (employee_id e)
                (round2 (of_int (dict_get hours (employee_id e) 0) / max_hours_per_week e * 100))
                acc))"

text \<open>\<open>_generate_recommendations\<close>: the coverage window is the literal 8 hours of the
  source, whatever \<open>shift_duration\<close> the schedule was built with.\<close>

definition actual_coverage :: "(int \<times> int) list \<Rightarrow> ShiftRequirement \<Rightarrow> rat" where
  "actual_coverage cov req =
     of_int (sum_list (map (\<lambda>hour. dict_get cov hour 0) [time_slot req .. time_slot req + 8 - 1])) / 8"

definition understaffed_slots :: "(int \<times> int) list \<Rightarrow> ShiftRequirement list \<Rightarrow> int list" where
  "understaffed_slots cov reqs =
     map time_slot (filter (\<lambda>req. actual_coverage cov req < of_int (required_count req) * (8 / 10)) reqs)"

definition shift_by_employee :: "Shift list \<Rightarrow> (string \<times> int) list" where
  "shift_by_employee ss =
     fold (\<lambda>s d. AList.update (shift_employee_id s) (dict_get d (shift_employee_id s) 0 + 1) d) ss []"

definition max_list :: "int list \<Rightarrow> int" where
  "max_list xs = fold max (tl xs) (hd xs)"

definition min_list :: "int list \<Rightarrow> int" where
  "min_list xs = fold min (tl xs) (hd xs)"

definition sched_generate_recommendations ::
  "Shift list \<Rightarrow> (int \<times> int) list \<Rightarrow> (string \<times> rat) list \<Rightarrow> ShiftRequirement list \<Rightarrow>
   sched_recommendation list" where
  "sched_generate_recommendations ss cov util reqs =
     (let understaffed = understaffed_slots cov reqs;
          r1 = (if understaffed \<noteq> [] then [InsufficientCoverage (length understaffed)] else []);
          overworked = filter (\<lambda>(emp_id, u). u > 95) util;
          underutilized = filter (\<lambda>(emp_id, u). u < 50) util;
          r2 = r1 @ (if overworked \<noteq> [] then [NearMaximumHours (length overworked)] else []);
          r3 = r2 @ (if underutilized \<noteq> [] then [LowUtilization (length underutilized)] else []);
          r4 = r3 @ (if ss \<noteq> [] then
                       (let counts = map snd (shift_by_employee ss);
                            max_shifts = max_list counts;
                            min_shifts = min_list counts
                        in if max_shifts - min_shifts > 5
                           then [LargeVariance max_shifts min_shifts] else [])
                     else [])
      in if r4 = [] then [WellBalanced] else r4)"

text \<open>\<open>SchedulingOptimizer.optimize\<close>. The horizon argument is accepted and never read,
  as in the source.\<close>

definition sched_sorted_requirements :: "SchedulingOptimizer \<Rightarrow> ShiftRequirement list" where
  "sched_sorted_requirements self =
     sorted_by_reverse (\<lambda>r. (req_priority r, time_slot r)) (requirements self)"

definition sched_sorted_employees :: "SchedulingOptimizer \<Rightarrow> bool \<Rightarrow> Employee list" where
  "sched_sorted_employees self minimize_cost =
     sorted_by (\<lambda>e. if minimize_cost then cost_per_hour e else - cost_per_hour e) (employees self)"

definition sched_assign :: "SchedulingOptimizer \<Rightarrow> int \<Rightarrow> bool \<Rightarrow> sched_locals" where
  "sched_assign self shift_duration minimize_cost =
     assign_requirements shift_duration (sched_sorted_employees self minimize_cost)
       (sched_sorted_requirements self)
       \<lparr>l_shifts = [], l_coverage = [],
        l_employee_hours = fold (\<lambda>emp d. AList.update (employee_id emp) 0 d) (employees self) []\<rparr>"

definition sched_optimize ::
  "clock \<Rightarrow> SchedulingOptimizer \<Rightarrow> int \<Rightarrow> int \<Rightarrow> bool \<Rightarrow> py_error + ScheduleResult" where
  "sched_optimize now self time_horizon_hours shift_duration minimize_cost =
     (let start_time = now 0;
          st = sched_assign self shift_duration minimize_cost;
          total = sum_list (map cost (l_shifts st))
      in case compute_employee_utilization (l_employee_hours st) (employees self) [] of
           Inl err \<Rightarrow> Inl err
         | Inr util \<Rightarrow>
             Inr \<lparr>sched_success = (length (l_shifts st) > 0),
                  shifts = l_shifts st,
                  coverage = l_coverage st,
                  total_cost = round2 total,
                  employee_utilization = util,
                  sched_recommendations =
                    sched_generate_recommendations (l_shifts st) (l_coverage st) util
                      (sched_sorted_requirements self),
                  sched_execution_time = now 1 - start_time\<rparr>)"

section \<open>Resource allocation (resource\_optimizer.py)\<close>

record Resource =
  resource_id :: string
  resource_type :: string
  capacity :: rat
  res_cost_per_hour :: rat
  res_availability :: rat

record Task =
  task_id :: string
  product_id :: string
  required_quantity :: rat
  duration_hours :: rat
  priority :: int

text \<open>An entry of \<open>assignments\<close>: the dict with keys \<open>task_id\<close>, \<open>product_id\<close>,
  \<open>resource_id\<close>, \<open>resource_type\<close>, \<open>allocated_hours\<close> and \<open>cost\<close>.\<close>

record Assignment =
  a_task_id :: string
  a_product_id :: string
  a_resource_id :: string
  a_resource_type :: string
  allocated_hours :: rat
  a_cost :: rat

datatype res_recommendation =
    HighlyUtilized string rat
  | UnderUtilized string rat
  | NoResourcesAllocated string rat
  | HighCostAssignments nat
  | AllocationOptimal

record OptimizationResult =
  success :: bool
  objective_value :: rat
  assignments :: "Assignment list"
  utilization :: "(string \<times> rat) list"
  recommendations :: "res_recommendation list"
  execution_time :: rat

record ResourceOptimizer =
  resources :: "Resource list"
  tasks :: "Task list"

definition ResourceOptimizer_init :: ResourceOptimizer where
  "ResourceOptimizer_init = \<lparr>resources = [], tasks = []\<rparr>"

definition add_resource :: "Resource \<Rightarrow> ResourceOptimizer \<Rightarrow> ResourceOptimizer" where
  "add_resource r self = self\<lparr>resources := resources self @ [r]\<rparr>"

definition add_task :: "Task \<Rightarrow> ResourceOptimizer \<Rightarrow> ResourceOptimizer" where
  "add_task t self = self\<lparr>tasks := tasks self @ [t]\<rparr>"

text \<open>Both paths append an assignment built from a task, a resource and the hours
  \<open>allocated_hours\<close> just computed; the dict stores the hours and the cost rounded.
  The loops of the model collect the triple, and \<open>assignment_of\<close> builds the dict.\<close>

type_synonym allocation = "Task \<times> Resource \<times> rat"

definition assignment_of :: "allocation \<Rightarrow> Assignment" where
  "assignment_of al =
     (case al of (task, resource, hours) \<Rightarrow>
        \<lparr>a_task_id = task_id task, a_product_id = product_id task,
         a_resource_id = resource_id resource, a_resource_type = resource_type resource,
         allocated_hours = round2 hours,
         a_cost = round2 (hours * res_cost_per_hour resource)\<rparr>)"

subsection \<open>\<open>_generate_recommendations\<close>\<close>

definition utilization_recommendations :: "(string \<times> rat) list \<Rightarrow> res_recommendation list" where
  "utilization_recommendations util =
     concat (map (\<lambda>(rid, u). if u > 90 then [HighlyUtilized rid u]
                              else if u < 50 then [UnderUtilized rid u] else []) util)"

definition unmet_demand_recommendations ::
  "Assignment list \<Rightarrow> (string \<times> rat) list \<Rightarrow> res_recommendation list" where
  "unmet_demand_recommendations asg forecasted_demand =
     concat (map (\<lambda>(pid, demand).
                    if pid \<notin> set (map a_product_id asg) \<and> demand > 0
                    then [NoResourcesAllocated pid demand] else []) forecasted_demand)"

definition cost_recommendations :: "Assignment list \<Rightarrow> res_recommendation list" where
  "cost_recommendations asg =
     (if asg \<noteq> [] then
        (let total = sum_list (map a_cost asg);
             avg_cost = total / of_nat (length asg);
             high_cost_assignments = filter (\<lambda>a. a_cost a > avg_cost * (3 / 2)) asg
         in if high_cost_assignments \<noteq> []
            then [HighCostAssignments (length high_cost_assignments)] else [])
      else [])"

definition res_generate_recommendations ::
  "Assignment list \<Rightarrow> (string \<times> rat) list \<Rightarrow> (string \<times> rat) list \<Rightarrow> res_recommendation list" where
  "res_generate_recommendations asg util forecasted_demand =
     (let recs = utilization_recommendations util
                 @ unmet_demand_recommendations asg forecasted_demand
                 @ cost_recommendations asg
      in if recs = [] then [AllocationOptimal] else recs)"

subsection \<open>The greedy fallback \<open>_simple_optimization\<close>\<close>

record greedy_locals =
  g_allocations :: "allocation list"
  g_remaining :: "(string \<times> rat) list"

definition initial_remaining_capacity :: "ResourceOptimizer \<Rightarrow> int \<Rightarrow> (string \<times> rat) list" where
  "initial_remaining_capacity self time_horizon_hours =
     fold (\<lambda>r d. AList.update (resource_id r)
                    (capacity r * res_availability r * of_int time_horizon_hours) d)
          (resources self) []"

text \<open>The scan for the best resource: the first one, in ascending cost order, whose
  remaining capacity is at least the task's duration.\<close>

definition best_resource :: "ResourceOptimizer \<Rightarrow> (string \<times> rat) list \<Rightarrow> Task \<Rightarrow> Resource option" where
  "best_resource self remaining task =
     find (\<lambda>r. dict_get remaining (resource_id r) 0 \<ge> duration_hours task)
          (sorted_by res_cost_per_hour (resources self))"

fun greedy_assign ::
  "ResourceOptimizer \<Rightarrow> (string \<times> rat) list \<Rightarrow> Task list \<Rightarrow> greedy_locals \<Rightarrow> greedy_locals" where
  "greedy_assign self forecasted_demand [] st = st"
| "greedy_assign self forecasted_demand (task # ts) st =
     (let forecasted = dict_get forecasted_demand (product_id task) 0
      in if forecasted = 0 then greedy_assign self forecasted_demand ts st
         else case best_resource self (g_remaining st) task of
                None \<Rightarrow> greedy_assign self forecasted_demand ts st
              | Some best \<Rightarrow>
                  (let rem = dict_get (g_remaining st) (resource_id best) 0;
                       hours = min (duration_hours task * forecasted) rem
                   in greedy_assign self forecasted_demand ts
                        \<lparr>g_allocations = g_allocations st @ [(task, best, hours)],
                         g_remaining = AList.update (resource_id best) (rem - hours)
                                         (g_remaining st)\<rparr>))"

definition greedy_run :: "ResourceOptimizer \<Rightarrow> (string \<times> rat) list \<Rightarrow> int \<Rightarrow> greedy_locals" where
  "greedy_run self forecasted_demand time_horizon_hours =
     greedy_assign self forecasted_demand (sorted_by_reverse priority (tasks self))
       \<lparr>g_allocations = [],
        g_remaining = initial_remaining_capacity self time_horizon_hours\<rparr>"

text \<open>The utilization loop of the fallback divides by
  \<open>capacity * availability * time_horizon_hours\<close>.\<close>

fun greedy_utilization ::
  "int \<Rightarrow> (string \<times> rat) list \<Rightarrow> Resource list \<Rightarrow> (string \<times> rat) list \<Rightarrow>
   py_error + (string \<times> rat) list" where
  "greedy_utilization h remaining [] util = Inr util"
| "greedy_utilization h remaining (r # rs) util =
     (let total = capacity r * res_availability r * of_int h;
          used = total - dict_get remaining (resource_id r) 0
      in if total = 0 then Inl ZeroDivisionError
         else greedy_utilization h remaining rs
                (AList.update (resource_id r) (round2 (used / total * 100)) util))"

definition simple_optimization ::
  "clock \<Rightarrow> ResourceOptimizer \<Rightarrow> (string \<times> rat) list \<Rightarrow> int \<Rightarrow> py_error + OptimizationResult" where
  "simple_optimization now self forecasted_demand time_horizon_hours =
     (let start_time = now 1;
          st = greedy_run self forecasted_demand time_horizon_hours;
          asg = map assignment_of (g_allocations st)
      in case greedy_utilization time_horizon_hours (g_remaining st) (resources self) [] of
           Inl err \<Rightarrow> Inl err
         | Inr util \<Rightarrow>
             Inr \<lparr>success = True,
                  objective_value = sum_list (map allocated_hours asg),
                  assignments = asg,
                  utilization = util,
                  recommendations = res_generate_recommendations asg util forecasted_demand,
                  execution_time = now 2 - start_time\<rparr>)"

subsection \<open>The linear program handed to the solver\<close>

text \<open>
  The solver library (PuLP) is not part of the repository. The model keeps the
  problem that \<open>optimize\<close> builds as data, and takes the solver as an argument
  \<open>solve\<close> of the call: a function from the problem to what \<open>optimize\<close> reads back
  after \<open>problem.solve()\<close>, namely the status, the \<open>varValue\<close> of every variable
  (\<open>None\<close> when the solver left it unset) and \<open>problem.objective.value()\<close>.
  A variable \<open>x[task_id][resource_id]\<close> is the pair of the two ids; every
  coefficient of a constraint is 1.
\<close>

datatype lp_sense = LpMinimize | LpMaximize

datatype lp_status = Optimal | NotSolved | Infeasible | Unbounded | Undefined

datatype lp_rel = LessEq | GreaterEq

type_synonym lp_var = "string \<times> string"

record lp_bounds =
  bounded_var :: lp_var
  lowBound :: rat
  upBound :: rat

record lp_constraint =
  constraint_name :: string
  constraint_vars :: "lp_var list"
  constraint_rel :: lp_rel
  constraint_rhs :: rat

record lp_problem =
  problem_name :: string
  sense :: lp_sense
  variables :: "lp_bounds list"
  objective :: "(lp_var \<times> rat) list"
  constraints :: "lp_constraint list"

record lp_outcome =
  status :: lp_status
  varValue :: "lp_var \<Rightarrow> rat option"
  objective_result :: "rat option"

type_synonym lp_solver = "lp_problem \<Rightarrow> lp_outcome"

definition decision_variables :: "ResourceOptimizer \<Rightarrow> lp_bounds list" where
  "decision_variables self =
     concat (map (\<lambda>task. map (\<lambda>resource.
        \<lparr>bounded_var = (task_id task, resource_id resource), lowBound = 0,
         upBound = capacity resource * res_availability resource\<rparr>) (resources self))
       (tasks self))"

definition objective_terms :: "ResourceOptimizer \<Rightarrow> bool \<Rightarrow> (lp_var \<times> rat) list" where
  "objective_terms self minimize_cost =
     concat (map (\<lambda>task. map (\<lambda>resource.
        ((task_id task, resource_id resource),
         if minimize_cost then res_cost_per_hour resource else of_int (priority task)))
        (resources self)) (tasks self))"

definition capacity_constraints :: "ResourceOptimizer \<Rightarrow> int \<Rightarrow> lp_constraint list" where
  "capacity_constraints self time_horizon_hours =
     map (\<lambda>resource.
        \<lparr>constraint_name = ''Capacity_'' @ resource_id resource,
         constraint_vars = map (\<lambda>task. (task_id task, resource_id resource)) (tasks self),
         constraint_rel = LessEq,
         constraint_rhs = capacity resource * res_availability resource
                          * of_int time_horizon_hours\<rparr>) (resources self)"

definition demand_constraints :: "ResourceOptimizer \<Rightarrow> (string \<times> rat) list \<Rightarrow> lp_constraint list" where
  "demand_constraints self forecasted_demand =
     concat (map (\<lambda>task.
        (let forecasted = dict_get forecasted_demand (product_id task) 0
         in if forecasted > 0
            then [\<lparr>constraint_name = ''Demand_'' @ task_id task,
                   constraint_vars = map (\<lambda>resource. (task_id task, resource_id resource))
                                         (resources self),
                   constraint_rel = GreaterEq,
                   constraint_rhs = duration_hours task
                                    * min forecasted (required_quantity task)\<rparr>]
            else [])) (tasks self))"

definition build_problem ::
  "ResourceOptimizer \<Rightarrow> (string \<times> rat) list \<Rightarrow> int \<Rightarrow> bool \<Rightarrow> lp_problem" where
  "build_problem self forecasted_demand time_horizon_hours minimize_cost =
     \<lparr>problem_name = (if minimize_cost then ''Resource_Allocation_Cost_Minimization''
                       else ''Resource_Allocation_Throughput_Maximization''),
      sense = (if minimize_cost then LpMinimize else LpMaximize),
      variables = decision_variables self,
      objective = objective_terms self minimize_cost,
      constraints = capacity_constraints self time_horizon_hours
                    @ demand_constraints self forecasted_demand\<rparr>"

text \<open>\<open>x[task.task_id][resource.resource_id].varValue or 0\<close>\<close>

definition value_or_0 :: "lp_outcome \<Rightarrow> lp_var \<Rightarrow> rat" where
  "value_or_0 out v = (case varValue out v of None \<Rightarrow> 0 | Some q \<Rightarrow> q)"

text \<open>What it means for the values read back to satisfy the problem: every variable
  within its bounds and every constraint met.\<close>

definition constraint_holds :: "lp_outcome \<Rightarrow> lp_constraint \<Rightarrow> bool" where
  "constraint_holds out c =
     (let lhs = sum_list (map (value_or_0 out) (constraint_vars c))
      in case constraint_rel c of
           LessEq \<Rightarrow> lhs \<le> constraint_rhs c
         | GreaterEq \<Rightarrow> lhs \<ge> constraint_rhs c)"

definition bounds_hold :: "lp_outcome \<Rightarrow> lp_bounds \<Rightarrow> bool" where
  "bounds_hold out b =
     (lowBound b \<le> value_or_0 out (bounded_var b) \<and> value_or_0 out (bounded_var b) \<le> upBound b)"

definition feasible :: "lp_problem \<Rightarrow> lp_outcome \<Rightarrow> bool" where
  "feasible p out =
     (list_all (bounds_hold out) (variables p) \<and> list_all (constraint_holds out) (constraints p))"

subsection \<open>The exact path of \<open>optimize\<close>\<close>

text \<open>The inner loop over the tasks for one resource: the allocations with positive
  hours, and \<open>total_hours\<close>.\<close>

fun extract_tasks ::
  "lp_outcome \<Rightarrow> Resource \<Rightarrow> Task list \<Rightarrow> allocation list \<times> rat \<Rightarrow> allocation list \<times> rat" where
  "extract_tasks out resource [] acc = acc"
| "extract_tasks out resource (task # ts) (allocs, total_hours) =
     (let hours = value_or_0 out (task_id task, resource_id resource)
      in if hours > 0
         then extract_tasks out resource ts (allocs @ [(task, resource, hours)], total_hours + hours)
         else extract_tasks out resource ts (allocs, total_hours))"

text \<open>The outer loop over the resources; the utilization divides by
  \<open>capacity * time_horizon_hours\<close>.\<close>

fun extract_results ::
  "lp_outcome \<Rightarrow> ResourceOptimizer \<Rightarrow> int \<Rightarrow> Resource list \<Rightarrow>
   allocation list \<times> (string \<times> rat) list \<Rightarrow>
   py_error + allocation list \<times> (string \<times> rat) list" where
  "extract_results out self h [] acc = Inr acc"
| "extract_results out self h (resource # rs) (allocs, util) =
     (case extract_tasks out resource (tasks self) (allocs, 0) of
        (allocs', total_hours) \<Rightarrow>
          if capacity resource * of_int h = 0 then Inl ZeroDivisionError
          else extract_results out self h rs
                 (allocs',
                  AList.update (resource_id resource)
                    (round2 (total_hours / (capacity resource * of_int h) * 100)) util))"

text \<open>\<open>ResourceOptimizer.optimize\<close>; \<open>pulp_available\<close> is the module flag
  \<open>PULP_AVAILABLE\<close>.\<close>

definition res_optimize ::
  "bool \<Rightarrow> lp_solver \<Rightarrow> clock \<Rightarrow> ResourceOptimizer \<Rightarrow> (string \<times> rat) list \<Rightarrow> int \<Rightarrow> bool \<Rightarrow>
   py_error + OptimizationResult" where
  "res_optimize pulp_available solve now self forecasted_demand time_horizon_hours minimize_cost =
     (let start_time = now 0
      in if \<not> pulp_available
         then simple_optimization now self forecasted_demand time_horizon_hours
         else
           (let problem = build_problem self forecasted_demand time_horizon_hours minimize_cost;
                out = solve problem
            in case extract_results out self time_horizon_hours (resources self) ([], []) of
                 Inl err \<Rightarrow> Inl err
               | Inr (allocs, util) \<Rightarrow>
                   (let asg = map assignment_of allocs
                    in Inr \<lparr>success = (status out = Optimal),
                            objective_value =
                              (case objective_result out of None \<Rightarrow> 0 | Some v \<Rightarrow> v),
                            assignments = asg,
                            utilization = util,
                            recommendations =
                              res_generate_recommendations asg util forecasted_demand,
                            execution_time = now 1 - start_time\<rparr>)))"

section \<open>Capacity planning (capacity\_planner.py)\<close>

text \<open>The period label \<open>f"Month {i+1}"\<close> and the plan descriptions carry their
  interpolated values.\<close>

datatype period_label = Month int

datatype plan_description =
    CriticalExpansion rat
  | ProactiveExpansion rat
  | StrategicExpansion rat
  | MonitorOnly

record CapacityForecast =
  period :: period_label
  fc_forecasted_demand :: rat
  fc_current_capacity :: rat
  required_capacity :: rat
  capacity_gap :: rat
  utilization_rate :: rat
  investment_needed :: rat

record ExpansionPlan =
  plan_id :: string
  timeline :: string
  investment :: rat
  capacity_increase :: rat
  roi_months :: rat
  plan_priority :: string
  description :: plan_description

datatype plan_recommendation =
    DemandGrowing
  | DemandDeclining
  | DemandStable
  | UtilizationUrgent rat
  | UtilizationProactive rat
  | UtilizationUnderused rat
  | CriticalInvestments rat
  | GoodRoiPlans nat

record CapacityPlanResult =
  forecasts :: "CapacityForecast list"
  expansion_plans :: "ExpansionPlan list"
  total_investment :: rat
  expected_roi :: rat
  plan_recommendations :: "plan_recommendation list"
  plan_execution_time :: rat

text \<open>The instance. A date of the demand history is a point in time, an \<open>int\<close>
  (microseconds); only the order of the dates is used.\<close>

record CapacityPlanner =
  capacity_cost_per_unit :: rat
  current_capacity :: rat
  demand_history :: "(int \<times> rat) list"

definition CapacityPlanner_init :: "rat \<Rightarrow> CapacityPlanner" where
  "CapacityPlanner_init cost_per_unit =
     \<lparr>capacity_cost_per_unit = cost_per_unit, current_capacity = 0, demand_history = []\<rparr>"

definition set_current_capacity :: "rat \<Rightarrow> CapacityPlanner \<Rightarrow> CapacityPlanner" where
  "set_current_capacity c self = self\<lparr>current_capacity := c\<rparr>"

definition add_demand_history :: "int \<Rightarrow> rat \<Rightarrow> CapacityPlanner \<Rightarrow> CapacityPlanner" where
  "add_demand_history date demand self =
     self\<lparr>demand_history := demand_history self @ [(date, demand)]\<rparr>"

subsection \<open>\<open>_analyze_trend\<close>\<close>

definition recent_window :: "'a list \<Rightarrow> 'a list" where
  "recent_window sorted_history =
     (if length sorted_history \<ge> 30
      then drop (length sorted_history - 30) sorted_history else sorted_history)"

definition older_window :: "'a list \<Rightarrow> 'a list" where
  "older_window sorted_history =
     (if length sorted_history > 30
      then take (length sorted_history div 2) sorted_history
      else take (length sorted_history div 3) sorted_history)"

definition classify_change :: "rat \<Rightarrow> rat \<Rightarrow> string" where
  "classify_change recent_avg older_avg =
     (let change_pct = (if older_avg > 0 then (recent_avg - older_avg) / older_avg * 100 else 0)
      in if change_pct > 10 then ''growing''
         else if change_pct < - 10 then ''declining''
         else ''stable'')"

definition analyze_trend :: "CapacityPlanner \<Rightarrow> py_error + string" where
  "analyze_trend self =
     (if length (demand_history self) < 3 then Inr ''insufficient_data''
      else
        (let sorted_history = sorted_by fst (demand_history self);
             recent = recent_window sorted_history;
             older = older_window sorted_history
         in if recent = [] \<or> older = [] then Inr ''stable''
            else case mean (map snd recent) of
                   Inl err \<Rightarrow> Inl err
                 | Inr recent_avg \<Rightarrow>
                     (case mean (map snd older) of
                        Inl err \<Rightarrow> Inl err
                      | Inr older_avg \<Rightarrow> Inr (classify_change recent_avg older_avg))))"

subsection \<open>The per-period forecasts\<close>

text \<open>\<open>xs[:n]\<close> with Python's reading of a negative \<open>n\<close>.\<close>

definition py_prefix :: "int \<Rightarrow> 'a list \<Rightarrow> 'a list" where
  "py_prefix n xs = (if n \<ge> 0 then take (nat n) xs else take (length xs - nat (- n)) xs)"

definition capacity_forecast ::
  "CapacityPlanner \<Rightarrow> rat \<Rightarrow> nat \<Rightarrow> (string \<times> rat) list \<Rightarrow> py_error + CapacityForecast" where
  "capacity_forecast self target_utilization i forecast =
     (let demand = dict_get forecast ''predicted_quantity'' 0
      in if target_utilization = 0 then Inl ZeroDivisionError
         else
           (let required = demand / target_utilization;
                gap = max 0 (required - current_capacity self);
                rate = min (if current_capacity self > 0 then demand / current_capacity self else 0) 1;
                needed = gap * capacity_cost_per_unit self
            in Inr \<lparr>period = Month (int i + 1),
                    fc_forecasted_demand = round2 demand,
                    fc_current_capacity = round2 (current_capacity self),
                    required_capacity = round2 required,
                    capacity_gap = round2 gap,
                    utilization_rate = round2 (rate * 100),
                    investment_needed = round2 needed\<rparr>))"

fun capacity_forecasts ::
  "CapacityPlanner \<Rightarrow> rat \<Rightarrow> nat \<Rightarrow> (string \<times> rat) list list \<Rightarrow> CapacityForecast list \<Rightarrow>
   py_error + CapacityForecast list" where
  "capacity_forecasts self target_utilization i [] acc = Inr acc"
| "capacity_forecasts self target_utilization i (forecast # fs) acc =
     (case capacity_forecast self target_utilization i forecast of
        Inl err \<Rightarrow> Inl err
      | Inr fc \<Rightarrow> capacity_forecasts self target_utilization (Suc i) fs (acc @ [fc]))"

subsection \<open>\<open>_generate_expansion_plans\<close>\<close>

definition roi_of :: "rat \<Rightarrow> rat \<Rightarrow> rat" where
  "roi_of invest monthly_revenue =
     (if monthly_revenue > 0 then invest / monthly_revenue else 999)"

definition max_rat_list :: "rat list \<Rightarrow> rat" where
  "max_rat_list xs = fold max (tl xs) (hd xs)"

definition critical_plan :: "CapacityPlanner \<Rightarrow> CapacityForecast list \<Rightarrow> rat \<Rightarrow> ExpansionPlan list" where
  "critical_plan self fcs revenue_per_unit =
     (let critical_periods = filter (\<lambda>fc. utilization_rate fc > 95) fcs
      in if critical_periods \<noteq> [] then
           (let max_gap = max_rat_list (map capacity_gap critical_periods);
                invest = max_gap * capacity_cost_per_unit self;
                monthly_revenue = max_gap * revenue_per_unit
            in [\<lparr>plan_id = ''EXP-001-CRITICAL'', timeline = ''Immediate (0-3 months)'',
                  investment = round2 invest, capacity_increase = round2 max_gap,
                  roi_months = round2 (roi_of invest monthly_revenue),
                  plan_priority = ''critical'',
                  description = CriticalExpansion (round2 max_gap)\<rparr>])
         else [])"

definition high_plan ::
  "CapacityPlanner \<Rightarrow> CapacityForecast list \<Rightarrow> rat \<Rightarrow> py_error + ExpansionPlan list" where
  "high_plan self fcs revenue_per_unit =
     (let high_util_periods = filter (\<lambda>fc. 80 \<le> utilization_rate fc \<and> utilization_rate fc \<le> 95) fcs
      in if high_util_periods \<noteq> [] \<and> length high_util_periods > 3 then
           (case mean (map capacity_gap high_util_periods) of
              Inl err \<Rightarrow> Inl err
            | Inr avg_gap \<Rightarrow>
                (let invest = avg_gap * capacity_cost_per_unit self;
                     monthly_revenue = avg_gap * revenue_per_unit
                 in Inr [\<lparr>plan_id = ''EXP-002-HIGH'', timeline = ''Short-term (3-6 months)'',
                          investment = round2 invest, capacity_increase = round2 avg_gap,
                          roi_months = round2 (roi_of invest monthly_revenue),
                          plan_priority = ''high'',
                          description = ProactiveExpansion (round2 avg_gap)\<rparr>]))
         else Inr [])"

definition strategic_plan :: "CapacityPlanner \<Rightarrow> rat \<Rightarrow> string \<Rightarrow> ExpansionPlan list" where
  "strategic_plan self revenue_per_unit trend =
     (if trend = ''growing'' then
        (let strategic_increase = current_capacity self * (20 / 100);
             invest = strategic_increase * capacity_cost_per_unit self;
             monthly_revenue = strategic_increase * revenue_per_unit * (7 / 10)
         in [\<lparr>plan_id = ''EXP-003-STRATEGIC'', timeline = ''Long-term (6-12 months)'',
               investment = round2 invest, capacity_increase = round2 strategic_increase,
               roi_months = round2 (roi_of invest monthly_revenue),
               plan_priority = ''medium'',
               description = StrategicExpansion (round2 strategic_increase)\<rparr>])
      else [])"

definition monitor_plan :: ExpansionPlan where
  "monitor_plan =
     \<lparr>plan_id = ''EXP-000-MONITOR'', timeline = ''Monitor only'', investment = 0,
      capacity_increase = 0, roi_months = 0, plan_priority = ''low'',
      description = MonitorOnly\<rparr>"

definition generate_expansion_plans ::
  "CapacityPlanner \<Rightarrow> CapacityForecast list \<Rightarrow> rat \<Rightarrow> string \<Rightarrow> py_error + ExpansionPlan list" where
  "generate_expansion_plans self fcs revenue_per_unit trend =
     (case high_plan self fcs revenue_per_unit of
        Inl err \<Rightarrow> Inl err
      | Inr high \<Rightarrow>
          (let plans = critical_plan self fcs revenue_per_unit @ high
                       @ strategic_plan self revenue_per_unit trend
           in Inr (if plans = [] then [monitor_plan] else plans)))"

subsection \<open>\<open>_generate_recommendations\<close>\<close>

definition plan_generate_recommendations ::
  "CapacityForecast list \<Rightarrow> ExpansionPlan list \<Rightarrow> string \<Rightarrow> py_error + plan_recommendation list" where
  "plan_generate_recommendations fcs plans trend =
     (let r1 = (if trend = ''growing'' then [DemandGrowing]
                else if trend = ''declining'' then [DemandDeclining]
                else [DemandStable])
      in case mean (map utilization_rate fcs) of
           Inl err \<Rightarrow> Inl err
         | Inr avg_utilization \<Rightarrow>
             (let r2 = r1 @ (if avg_utilization > 90 then [UtilizationUrgent (round1 avg_utilization)]
                             else if avg_utilization > 80
                               then [UtilizationProactive (round1 avg_utilization)]
                             else if avg_utilization < 60
                               then [UtilizationUnderused (round1 avg_utilization)]
                             else []);
                  critical_plans = filter (\<lambda>p. plan_priority p = ''critical'') plans;
                  r3 = r2 @ (if critical_plans \<noteq> []
                             then [CriticalInvestments
                                     (round2 (sum_list (map investment critical_plans)))]
                             else []);
                  good_roi_plans = filter (\<lambda>p. roi_months p < 12) plans
              in Inr (r3 @ (if good_roi_plans \<noteq> []
                            then [GoodRoiPlans (length good_roi_plans)] else []))))"

subsection \<open>\<open>plan_capacity\<close>\<close>

definition plan_capacity ::
  "clock \<Rightarrow> CapacityPlanner \<Rightarrow> (string \<times> rat) list list \<Rightarrow> int \<Rightarrow> rat \<Rightarrow> rat \<Rightarrow>
   py_error + CapacityPlanResult" where
  "plan_capacity now self demand_forecasts planning_horizon_months target_utilization
     revenue_per_unit =
     (let start_time = now 0
      in case analyze_trend self of
           Inl err \<Rightarrow> Inl err
         | Inr trend \<Rightarrow>
        (case capacity_forecasts self target_utilization 0
                (py_prefix planning_horizon_months demand_forecasts) [] of
           Inl err \<Rightarrow> Inl err
         | Inr fcs \<Rightarrow>
        (case generate_expansion_plans self fcs revenue_per_unit trend of
           Inl err \<Rightarrow> Inl err
         | Inr plans \<Rightarrow>
             (let total = sum_list (map investment plans);
                  total_additional_capacity = sum_list (map capacity_increase plans);
                  annual_additional_revenue = total_additional_capacity * revenue_per_unit * 12;
                  roi = (if total > 0 then annual_additional_revenue / total * 100 else 0)
              in case plan_generate_recommendations fcs plans trend of
                   Inl err \<Rightarrow> Inl err
                 | Inr recs \<Rightarrow>
                     Inr \<lparr>forecasts = fcs,
                          expansion_plans = plans,
                          total_investment = round2 total,
                          expected_roi = round2 roi,
                          plan_recommendations = recs,
                          plan_execution_time = now 1 - start_time\<rparr>))))"

section \<open>Calls as transformers of the instance\<close>

text \<open>
  The definitions above give what a call returns. The definitions of this section give
  the call itself, as the method of an object: a call takes the instance and returns
  what the method returns (or the exception it raises) together with the instance as
  the call leaves it. A frame holds the instance and the containers that the call
  creates and then mutates (\<open>shifts\<close>, \<open>coverage\<close>, \<open>employee_hours\<close>; \<open>assignments\<close>,
  \<open>remaining_capacity\<close>, \<open>utilization\<close>; \<open>capacity_forecasts\<close>). Every loop takes the
  frame and returns it; a read of \<open>self.x\<close> reads the instance of the current frame.
  The registration methods \<open>add_resource\<close>, \<open>add_task\<close>, \<open>add_employee\<close>,
  \<open>add_requirement\<close>, \<open>set_current_capacity\<close> and \<open>add_demand_history\<close> above are
  transformers of the instance already.
\<close>

record ('inst, 'loc) frame =
  fr_self :: 'inst
  fr_locals :: 'loc

subsection \<open>\<open>SchedulingOptimizer.optimize\<close>\<close>

fun run_assign_employees ::
  "int \<Rightarrow> ShiftRequirement \<Rightarrow> Employee list \<Rightarrow> int \<Rightarrow>
   (SchedulingOptimizer, sched_locals) frame \<Rightarrow> (SchedulingOptimizer, sched_locals) frame" where
  "run_assign_employees shift_duration req [] assigned_count fr = fr"
| "run_assign_employees shift_duration req (e # es) assigned_count fr =
     (if assigned_count \<ge> required_count req then fr
      else if req_role req \<notin> set (skills e)
        then run_assign_employees shift_duration req es assigned_count fr
      else if time_slot req \<notin> set (availability e)
        then run_assign_employees shift_duration req es assigned_count fr
      else if of_int (dict_get (l_employee_hours (fr_locals fr)) (employee_id e) 0 + shift_duration)
                > max_hours_per_week e
        then run_assign_employees shift_duration req es assigned_count fr
      else if shift_conflict (l_shifts (fr_locals fr)) (employee_id e) (time_slot req) shift_duration
        then run_assign_employees shift_duration req es assigned_count fr
      else run_assign_employees shift_duration req es (assigned_count + 1)
             (fr\<lparr>fr_locals := assign_shift shift_duration req e (fr_locals fr)\<rparr>))"

fun run_assign_requirements ::
  "int \<Rightarrow> Employee list \<Rightarrow> ShiftRequirement list \<Rightarrow>
   (SchedulingOptimizer, sched_locals) frame \<Rightarrow> (SchedulingOptimizer, sched_locals) frame" where
  "run_assign_requirements shift_duration emps [] fr = fr"
| "run_assign_requirements shift_duration emps (req # reqs) fr =
     run_assign_requirements shift_duration emps reqs
       (run_assign_employees shift_duration req emps 0 fr)"

fun run_employee_utilization ::
  "Employee list \<Rightarrow> (string \<times> rat) list \<Rightarrow> (SchedulingOptimizer, sched_locals) frame \<Rightarrow>
   (py_error + (string \<times> rat) list) \<times> (SchedulingOptimizer, sched_locals) frame" where
  "run_employee_utilization [] acc fr = (Inr acc, fr)"
| "run_employee_utilization (e # es) acc fr =
     (if max_hours_per_week e = 0 then (Inl ZeroDivisionError, fr)
      else run_employee_utilization es
             (AList.update (employee_id e)
                (round2 (of_int (dict_get (l_employee_hours (fr_locals fr)) (employee_id e) 0)
                         / max_hours_per_week e * 100))
                acc) fr)"

definition run_sched_optimize ::
  "clock \<Rightarrow> int \<Rightarrow> int \<Rightarrow> bool \<Rightarrow> SchedulingOptimizer \<Rightarrow>
   (py_error + ScheduleResult) \<times> SchedulingOptimizer" where
  "run_sched_optimize now time_horizon_hours shift_duration minimize_cost self =
     (let start_time = now 0;
          fr0 = \<lparr>fr_self = self,
                 fr_locals = \<lparr>l_shifts = [], l_coverage = [],
                   l_employee_hours =
                     fold (\<lambda>emp d. AList.update (employee_id emp) 0 d) (employees self) []\<rparr>\<rparr>;
          sorted_requirements =
            sorted_by_reverse (\<lambda>r. (req_priority r, time_slot r)) (requirements (fr_self fr0));
          sorted_employees =
            sorted_by (\<lambda>e. if minimize_cost then cost_per_hour e else - cost_per_hour e)
              (employees (fr_self fr0));
          fr1 = run_assign_requirements shift_duration sorted_employees sorted_requirements fr0;
          total_cost_sum = sum_list (map cost (l_shifts (fr_locals fr1)))
      in case run_employee_utilization (employees (fr_self fr1)) [] fr1 of
           (Inl err, fr2) \<Rightarrow> (Inl err, fr_self fr2)
         | (Inr util, fr2) \<Rightarrow>
             (Inr \<lparr>sched_success = (length (l_shifts (fr_locals fr2)) > 0),
                   shifts = l_shifts (fr_locals fr2),
                   coverage = l_coverage (fr_locals fr2),
                   total_cost = round2 total_cost_sum,
                   employee_utilization = util,
                   sched_recommendations =
                     sched_generate_recommendations (l_shifts (fr_locals fr2))
                       (l_coverage (fr_locals fr2)) util sorted_requirements,
                   sched_execution_time = now 1 - start_time\<rparr>,
              fr_self fr2))"

subsection \<open>\<open>ResourceOptimizer.optimize\<close> and \<open>_simple_optimization\<close>\<close>

fun run_greedy_assign ::
  "(string \<times> rat) list \<Rightarrow> Task list \<Rightarrow> (ResourceOptimizer, greedy_locals) frame \<Rightarrow>
   (ResourceOptimizer, greedy_locals) frame" where
  "run_greedy_assign forecasted_demand [] fr = fr"
| "run_greedy_assign forecasted_demand (task # ts) fr =
     (let forecasted = dict_get forecasted_demand (product_id task) 0
      in if forecasted = 0 then run_greedy_assign forecasted_demand ts fr
         else case best_resource (fr_self fr) (g_remaining (fr_locals fr)) task of
                None \<Rightarrow> run_greedy_assign forecasted_demand ts fr
              | Some best \<Rightarrow>
                  (let rem = dict_get (g_remaining (fr_locals fr)) (resource_id best) 0;
                       hours = min (duration_hours task * forecasted) rem
                   in run_greedy_assign forecasted_demand ts
                        (fr\<lparr>fr_locals :=
                           \<lparr>g_allocations = g_allocations (fr_locals fr) @ [(task, best, hours)],
                            g_remaining = AList.update (resource_id best) (rem - hours)
                                            (g_remaining (fr_locals fr))\<rparr>\<rparr>)))"

fun run_greedy_utilization ::
  "int \<Rightarrow> Resource list \<Rightarrow> (string \<times> rat) list \<Rightarrow> (ResourceOptimizer, greedy_locals) frame \<Rightarrow>
   (py_error + (string \<times> rat) list) \<times> (ResourceOptimizer, greedy_locals) frame" where
  "run_greedy_utilization h [] util fr = (Inr util, fr)"
| "run_greedy_utilization h (r # rs) util fr =
     (let cap = capacity r * res_availability r * of_int h;
          used = cap - dict_get (g_remaining (fr_locals fr)) (resource_id r) 0
      in if cap = 0 then (Inl ZeroDivisionError, fr)
         else run_greedy_utilization h rs
                (AList.update (resource_id r) (round2 (used / cap * 100)) util) fr)"

definition run_simple_optimization ::
  "clock \<Rightarrow> (string \<times> rat) list \<Rightarrow> int \<Rightarrow> ResourceOptimizer \<Rightarrow>
   (py_error + OptimizationResult) \<times> ResourceOptimizer" where
  "run_simple_optimization now forecasted_demand time_horizon_hours self =
     (let start_time = now 1;
          sorted_tasks = sorted_by_reverse priority (tasks self);
          fr0 = \<lparr>fr_self = self,
                 fr_locals = \<lparr>g_allocations = [],
                              g_remaining = initial_remaining_capacity self time_horizon_hours\<rparr>\<rparr>;
          fr1 = run_greedy_assign forecasted_demand sorted_tasks fr0
      in case run_greedy_utilization time_horizon_hours (resources (fr_self fr1)) [] fr1 of
           (Inl err, fr2) \<Rightarrow> (Inl err, fr_self fr2)
         | (Inr util, fr2) \<Rightarrow>
             (let asg = map assignment_of (g_allocations (fr_locals fr2))
              in (Inr \<lparr>success = True,
                       objective_value = sum_list (map allocated_hours asg),
                       assignments = asg,
                       utilization = util,
                       recommendations = res_generate_recommendations asg util forecasted_demand,
                       execution_time = now 2 - start_time\<rparr>,
                  fr_self fr2)))"

fun run_extract_tasks ::
  "lp_outcome \<Rightarrow> Resource \<Rightarrow> Task list \<Rightarrow> rat \<Rightarrow>
   (ResourceOptimizer, allocation list \<times> (string \<times> rat) list) frame \<Rightarrow>
   rat \<times> (ResourceOptimizer, allocation list \<times> (string \<times> rat) list) frame" where
  "run_extract_tasks out resource [] total_hours fr = (total_hours, fr)"
| "run_extract_tasks out resource (task # ts) total_hours fr =
     (let hours = value_or_0 out (task_id task, resource_id resource)
      in if hours > 0
         then run_extract_tasks out resource ts (total_hours + hours)
                (fr\<lparr>fr_locals := (fst (fr_locals fr) @ [(task, resource, hours)],
                                   snd (fr_locals fr))\<rparr>)
         else run_extract_tasks out resource ts total_hours fr)"

fun run_extract_results ::
  "lp_outcome \<Rightarrow> int \<Rightarrow> Resource list \<Rightarrow>
   (ResourceOptimizer, allocation list \<times> (string \<times> rat) list) frame \<Rightarrow>
   (py_error + unit) \<times> (ResourceOptimizer, allocation list \<times> (string \<times> rat) list) frame" where
  "run_extract_results out h [] fr = (Inr (), fr)"
| "run_extract_results out h (resource # rs) fr =
     (case run_extract_tasks out resource (tasks (fr_self fr)) 0 fr of
        (total_hours, fr') \<Rightarrow>
          if capacity resource * of_int h = 0 then (Inl ZeroDivisionError, fr')
          else run_extract_results out h rs
                 (fr'\<lparr>fr_locals :=
                    (fst (fr_locals fr'),
                     AList.update (resource_id resource)
                       (round2 (total_hours / (capacity resource * of_int h) * 100))
                       (snd (fr_locals fr')))\<rparr>))"

definition run_res_optimize ::
  "bool \<Rightarrow> lp_solver \<Rightarrow> clock \<Rightarrow> (string \<times> rat) list \<Rightarrow> int \<Rightarrow> bool \<Rightarrow> ResourceOptimizer \<Rightarrow>
   (py_error + OptimizationResult) \<times> ResourceOptimizer" where
  "run_res_optimize pulp_available solve now forecasted_demand time_horizon_hours minimize_cost self =
     (let start_time = now 0
      in if \<not> pulp_available
         then run_simple_optimization now forecasted_demand time_horizon_hours self
         else
           (let problem = build_problem self forecasted_demand time_horizon_hours minimize_cost;
                out = solve problem;
                fr0 = \<lparr>fr_self = self, fr_locals = ([], [])\<rparr>
            in case run_extract_results out time_horizon_hours (resources (fr_self fr0)) fr0 of
                 (Inl err, fr1) \<Rightarrow> (Inl err, fr_self fr1)
               | (Inr u, fr1) \<Rightarrow>
                   (let asg = map assignment_of (fst (fr_locals fr1));
                        util = snd (fr_locals fr1)
                    in (Inr \<lparr>success = (status out = Optimal),
                             objective_value =
                               (case objective_result out of None \<Rightarrow> 0 | Some v \<Rightarrow> v),
                             assignments = asg,
                             utilization = util,
                             recommendations =
                               res_generate_recommendations asg util forecasted_demand,
                             execution_time = now 1 - start_time\<rparr>,
                        fr_self fr1))))"

subsection \<open>\<open>CapacityPlanner.plan_capacity\<close>\<close>

fun run_capacity_forecasts ::
  "rat \<Rightarrow> nat \<Rightarrow> (string \<times> rat) list list \<Rightarrow> (CapacityPlanner, CapacityForecast list) frame \<Rightarrow>
   (py_error + unit) \<times> (CapacityPlanner, CapacityForecast list) frame" where
  "run_capacity_forecasts target_utilization i [] fr = (Inr (), fr)"
| "run_capacity_forecasts target_utilization i (forecast # fs) fr =
     (case capacity_forecast (fr_self fr) target_utilization i forecast of
        Inl err \<Rightarrow> (Inl err, fr)
      | Inr fc \<Rightarrow> run_capacity_forecasts target_utilization (Suc i) fs
                    (fr\<lparr>fr_locals := fr_locals fr @ [fc]\<rparr>))"

definition run_plan_capacity ::
  "clock \<Rightarrow> (string \<times> rat) list list \<Rightarrow> int \<Rightarrow> rat \<Rightarrow> rat \<Rightarrow> CapacityPlanner \<Rightarrow>
   (py_error + CapacityPlanResult) \<times> CapacityPlanner" where
  "run_plan_capacity now demand_forecasts planning_horizon_months target_utilization
     revenue_per_unit self =
     (let start_time = now 0
      in case analyze_trend self of
           Inl err \<Rightarrow> (Inl err, self)
         | Inr trend \<Rightarrow>
        (case run_capacity_forecasts target_utilization 0
                (py_prefix planning_horizon_months demand_forecasts)
                \<lparr>fr_self = self, fr_locals = []\<rparr> of
           (Inl err, fr1) \<Rightarrow> (Inl err, fr_self fr1)
         | (Inr u, fr1) \<Rightarrow>
        (case generate_expansion_plans (fr_self fr1) (fr_locals fr1) revenue_per_unit trend of
           Inl err \<Rightarrow> (Inl err, fr_self fr1)
         | Inr plans \<Rightarrow>
             (let invested = sum_list (map investment plans);
                  total_additional_capacity = sum_list (map capacity_increase plans);
                  annual_additional_revenue = total_additional_capacity * revenue_per_unit * 12;
                  roi = (if invested > 0 then annual_additional_revenue / invested * 100 else 0)
              in case plan_generate_recommendations (fr_locals fr1) plans trend of
                   Inl err \<Rightarrow> (Inl err, fr_self fr1)
                 | Inr recs \<Rightarrow>
                     (Inr \<lparr>forecasts = fr_locals fr1,
                           expansion_plans = plans,
                           total_investment = round2 invested,
                           expected_roi = round2 roi,
                           plan_recommendations = recs,
                           plan_execution_time = now 1 - start_time\<rparr>,
                      fr_self fr1)))))"

section \<open>Notions used to state the properties\<close>

text \<open>The definitions of this section are not translations of the source. They name
  what the claims speak about.\<close>

subsection \<open>Shift scheduling\<close>

text \<open>No two positions of a shift list hold shifts of one employee closer than \<open>d\<close>.\<close>

definition no_overlap :: "int \<Rightarrow> Shift list \<Rightarrow> bool" where
  "no_overlap d ss = (\<forall>i j. i < j \<and> j < length ss \<and>
      shift_employee_id (ss ! i) = shift_employee_id (ss ! j) \<longrightarrow>
      \<not> \<bar>shift_time_slot (ss ! i) - shift_time_slot (ss ! j)\<bar> < d)"

text \<open>The specification's understaffing rule: the average hourly coverage of a
  requirement over its shift window \<open>[time_slot, time_slot + shift_duration)\<close>, and the
  number of requirements for which it is below 80 percent of \<open>required_count\<close>.\<close>

definition spec_window_coverage :: "(int \<times> int) list \<Rightarrow> int \<Rightarrow> ShiftRequirement \<Rightarrow> rat" where
  "spec_window_coverage cov shift_duration req =
     of_int (sum_list (map (\<lambda>hour. dict_get cov hour 0)
                          [time_slot req .. time_slot req + shift_duration - 1]))
     / of_int shift_duration"

definition spec_understaffed_count :: "(int \<times> int) list \<Rightarrow> int \<Rightarrow> ShiftRequirement list \<Rightarrow> nat" where
  "spec_understaffed_count cov shift_duration reqs =
     length (filter (\<lambda>req. spec_window_coverage cov shift_duration req
                            < of_int (required_count req) * (8 / 10)) reqs)"

subsection \<open>Resource allocation\<close>

text \<open>The hours that a list of allocations commits to the resource with id \<open>rid\<close>,
  before rounding, and the hours that a list of assignments reports for it.\<close>

definition hours_on :: "allocation list \<Rightarrow> string \<Rightarrow> rat" where
  "hours_on allocs rid =
     sum_list (map (\<lambda>(task, resource, hours). hours)
                   (filter (\<lambda>(task, resource, hours). resource_id resource = rid) allocs))"

definition reported_hours_on :: "Assignment list \<Rightarrow> string \<Rightarrow> rat" where
  "reported_hours_on asg rid =
     sum_list (map allocated_hours (filter (\<lambda>a. a_resource_id a = rid) asg))"

text \<open>
  The rule of the greedy fallback, as a relation between the remaining capacity per
  resource id, the tasks in the order in which they are processed, and the allocations
  made. A task without forecast is passed over. A task with a forecast is passed over
  only when no resource has its duration left. Otherwise it goes to a resource that
  has its duration left and is cheapest among those that have, for the lesser of the
  hours it needs and the hours that remain there, which are then taken from what
  remains.
\<close>

inductive greedy_rule ::
  "Resource list \<Rightarrow> (string \<times> rat) list \<Rightarrow> (string \<Rightarrow> rat) \<Rightarrow> Task list \<Rightarrow> allocation list \<Rightarrow> bool"
  for rs :: "Resource list" and fd :: "(string \<times> rat) list"
where
  no_task: "greedy_rule rs fd rem [] []"
| no_forecast:
    "dict_get fd (product_id t) 0 = 0 \<Longrightarrow> greedy_rule rs fd rem ts als \<Longrightarrow>
     greedy_rule rs fd rem (t # ts) als"
| no_capacity:
    "dict_get fd (product_id t) 0 \<noteq> 0 \<Longrightarrow>
     \<forall>r\<in>set rs. rem (resource_id r) < duration_hours t \<Longrightarrow>
     greedy_rule rs fd rem ts als \<Longrightarrow>
     greedy_rule rs fd rem (t # ts) als"
| cheapest:
    "dict_get fd (product_id t) 0 \<noteq> 0 \<Longrightarrow>
     best \<in> set rs \<Longrightarrow>
     duration_hours t \<le> rem (resource_id best) \<Longrightarrow>
     \<forall>r\<in>set rs. duration_hours t \<le> rem (resource_id r) \<longrightarrow>
                 res_cost_per_hour best \<le> res_cost_per_hour r \<Longrightarrow>
     hours = min (duration_hours t * dict_get fd (product_id t) 0) (rem (resource_id best)) \<Longrightarrow>
     greedy_rule rs fd (rem(resource_id best := rem (resource_id best) - hours)) ts als \<Longrightarrow>
     greedy_rule rs fd rem (t # ts) ((t, best, hours) # als)"

text \<open>The allocations that the extraction loop appends for one resource.\<close>

definition positive_allocations :: "lp_outcome \<Rightarrow> Resource \<Rightarrow> Task list \<Rightarrow> allocation list" where
  "positive_allocations out resource ts =
     map (\<lambda>task. (task, resource, value_or_0 out (task_id task, resource_id resource)))
         (filter (\<lambda>task. value_or_0 out (task_id task, resource_id resource) > 0) ts)"

text \<open>The utilization formula of the specification: total allocated hours over
  \<open>capacity * horizon_hours\<close>, in percent, rounded to two decimals.\<close>

definition spec_utilization :: "Resource \<Rightarrow> int \<Rightarrow> rat \<Rightarrow> rat" where
  "spec_utilization resource time_horizon_hours total_allocated_hours =
     round2 (total_allocated_hours / (capacity resource * of_int time_horizon_hours) * 100)"

subsection \<open>Capacity planning\<close>

definition average :: "rat list \<Rightarrow> rat" where
  "average xs = sum_list xs / of_nat (length xs)"

text \<open>The trend classification in the specification's words: the older window is the
  first half of the history, or the first third when the history exceeds 30 points.
  (In HOL \<open>x / 0 = 0\<close>, so a zero older average gives a zero change here.)\<close>

definition spec_older_window :: "'a list \<Rightarrow> 'a list" where
  "spec_older_window sorted_history =
     (if length sorted_history > 30
      then take (length sorted_history div 3) sorted_history
      else take (length sorted_history div 2) sorted_history)"

definition spec_analyze_trend :: "CapacityPlanner \<Rightarrow> string" where
  "spec_analyze_trend self =
     (if length (demand_history self) < 3 then ''insufficient_data''
      else
        (let sorted_history = sorted_by fst (demand_history self);
             recent_avg = average (map snd (recent_window sorted_history));
             older_avg = average (map snd (spec_older_window sorted_history));
             change_pct = (recent_avg - older_avg) / older_avg * 100
         in if change_pct > 10 then ''growing''
            else if change_pct < - 10 then ''declining''
            else ''stable''))"

subsection \<open>Results up to the measured duration\<close>

definition erase_time_res :: "py_error + OptimizationResult \<Rightarrow> py_error + OptimizationResult" where
  "erase_time_res = map_sum id (\<lambda>r. r\<lparr>execution_time := 0\<rparr>)"

definition erase_time_sched :: "py_error + ScheduleResult \<Rightarrow> py_error + ScheduleResult" where
  "erase_time_sched = map_sum id (\<lambda>r. r\<lparr>sched_execution_time := 0\<rparr>)"

definition erase_time_plan :: "py_error + CapacityPlanResult \<Rightarrow> py_error + CapacityPlanResult" where
  "erase_time_plan = map_sum id (\<lambda>r. r\<lparr>plan_execution_time := 0\<rparr>)"

text \<open>Two calls in a row on one instance: the second call runs on the instance that
  the first call left; both leave the instance as it was, and the two results are the
  same under \<open>view\<close>.\<close>

definition calls_agree ::
  "('r \<Rightarrow> 'r) \<Rightarrow> ('s \<Rightarrow> 'r \<times> 's) \<Rightarrow> ('s \<Rightarrow> 'r \<times> 's) \<Rightarrow> 's \<Rightarrow> bool" where
  "calls_agree view first_call second_call s =
     (case first_call s of
        (r1, s1) \<Rightarrow>
          (case second_call s1 of
             (r2, s2) \<Rightarrow> view r2 = view r1 \<and> s1 = s \<and> s2 = s))"

section \<open>Concrete inputs\<close>

definition ex_employee :: Employee where
  "ex_employee = \<lparr>employee_id = ''E1'', name = ''Ada'', role = ''operator'',
     max_hours_per_week = 40, cost_per_hour = 20, skills = [''operator''],
     availability = [0, 8]\<rparr>"

definition ex_scheduler :: SchedulingOptimizer where
  "ex_scheduler = \<lparr>employees = [ex_employee], requirements =
     [\<lparr>time_slot = 0, req_role = ''operator'', required_count = 1, req_priority = 7\<rparr>,
      \<lparr>time_slot = 8, req_role = ''operator'', required_count = 1, req_priority = 10\<rparr>]\<rparr>"

text \<open>One requirement at slot 0, to be scheduled with four-hour shifts.\<close>

definition ex_short_shift_scheduler :: SchedulingOptimizer where
  "ex_short_shift_scheduler = \<lparr>employees = [ex_employee], requirements =
     [\<lparr>time_slot = 0, req_role = ''operator'', required_count = 1, req_priority = 10\<rparr>]\<rparr>"

text \<open>An employee who may work zero hours a week, with and without a requirement.\<close>

definition ex_zero_hours_scheduler :: SchedulingOptimizer where
  "ex_zero_hours_scheduler =
     \<lparr>employees = [ex_employee\<lparr>max_hours_per_week := 0\<rparr>], requirements =
       [\<lparr>time_slot = 0, req_role = ''operator'', required_count = 1, req_priority = 7\<rparr>]\<rparr>"

definition ex_no_requirements_scheduler :: SchedulingOptimizer where
  "ex_no_requirements_scheduler =
     \<lparr>employees = [ex_employee\<lparr>max_hours_per_week := 0\<rparr>], requirements = []\<rparr>"

text \<open>A machine available half of the time and one task of two hours per unit.\<close>

definition ex_resource :: Resource where
  "ex_resource = \<lparr>resource_id = ''R1'', resource_type = ''machine'', capacity = 10,
     res_cost_per_hour = 5, res_availability = 1 / 2\<rparr>"

definition ex_task :: Task where
  "ex_task = \<lparr>task_id = ''T1'', product_id = ''P1'', required_quantity = 3,
     duration_hours = 2, priority = 5\<rparr>"

definition ex_optimizer :: ResourceOptimizer where
  "ex_optimizer = \<lparr>resources = [ex_resource], tasks = [ex_task]\<rparr>"

text \<open>A solver outcome for \<open>ex_optimizer\<close> with a forecast of 2 units, a horizon of 10
  hours and cost minimization: four hours of \<open>R1\<close> on \<open>T1\<close>, at cost 20.\<close>

definition ex_solver :: lp_solver where
  "ex_solver problem =
     \<lparr>status = Optimal,
      varValue = (\<lambda>v. if v = (''T1'', ''R1'') then Some 4 else None),
      objective_result = Some 20\<rparr>"

text \<open>With a forecast of 3 units the problem has no solution (the variable is bounded
  by 5 and the demand asks for 6). A solver outcome that reports so and leaves the
  variable at its bound.\<close>

definition ex_infeasible_solver :: lp_solver where
  "ex_infeasible_solver problem =
     \<lparr>status = Infeasible,
      varValue = (\<lambda>v. if v = (''T1'', ''R1'') then Some 5 else None),
      objective_result = Some 25\<rparr>"

text \<open>A second, cheaper machine registered after the first, and what the fallback
  returns then for a forecast of 2 units and a horizon of 10 hours.\<close>

definition ex_cheap_resource :: Resource where
  "ex_cheap_resource = \<lparr>resource_id = ''R2'', resource_type = ''machine'', capacity = 10,
     res_cost_per_hour = 3, res_availability = 1\<rparr>"

definition ex_two_resource_optimizer :: ResourceOptimizer where
  "ex_two_resource_optimizer = add_resource ex_cheap_resource ex_optimizer"

definition ex_two_resource_result :: OptimizationResult where
  "ex_two_resource_result =
     \<lparr>success = True, objective_value = 4,
      assignments =
        [\<lparr>a_task_id = ''T1'', a_product_id = ''P1'', a_resource_id = ''R2'',
          a_resource_type = ''machine'', allocated_hours = 4, a_cost = 12\<rparr>],
      utilization = [(''R1'', 0), (''R2'', 4)],
      recommendations = [UnderUtilized ''R1'' 0, UnderUtilized ''R2'' 4],
      execution_time = 1\<rparr>"

text \<open>A resource without capacity.\<close>

definition ex_zero_capacity_optimizer :: ResourceOptimizer where
  "ex_zero_capacity_optimizer =
     \<lparr>resources = [ex_resource\<lparr>capacity := 0\<rparr>], tasks = [ex_task]\<rparr>"

text \<open>A resource with 0.9375 hours in a horizon of one hour, and a task that asks for
  one hour.\<close>

definition ex_fraction_resource :: Resource where
  "ex_fraction_resource = \<lparr>resource_id = ''R1'', resource_type = ''machine'', capacity = 1,
     res_cost_per_hour = 1, res_availability = 15 / 16\<rparr>"

definition ex_fraction_optimizer :: ResourceOptimizer where
  "ex_fraction_optimizer =
     \<lparr>resources = [ex_fraction_resource],
      tasks = [\<lparr>task_id = ''T1'', product_id = ''P1'', required_quantity = 2,
                 duration_hours = 1 / 2, priority = 5\<rparr>]\<rparr>"

text \<open>What the fallback returns for it, for a forecast of 2 units.\<close>

definition ex_fraction_result :: OptimizationResult where
  "ex_fraction_result =
     \<lparr>success = True, objective_value = 94 / 100,
      assignments =
        [\<lparr>a_task_id = ''T1'', a_product_id = ''P1'', a_resource_id = ''R1'',
          a_resource_type = ''machine'', allocated_hours = 94 / 100, a_cost = 94 / 100\<rparr>],
      utilization = [(''R1'', 100)],
      recommendations = [HighlyUtilized ''R1'' 100], execution_time = 1\<rparr>"

text \<open>One hour of one resource, and two tasks that each need one hour: the problem has
  no solution. A solver outcome that reports so and leaves both variables at 1.\<close>

definition ex_contended_resource :: Resource where
  "ex_contended_resource = \<lparr>resource_id = ''R1'', resource_type = ''machine'', capacity = 1,
     res_cost_per_hour = 1, res_availability = 1\<rparr>"

definition ex_contended_optimizer :: ResourceOptimizer where
  "ex_contended_optimizer =
     \<lparr>resources = [ex_contended_resource],
      tasks = [\<lparr>task_id = ''T1'', product_id = ''P1'', required_quantity = 1,
                 duration_hours = 1, priority = 5\<rparr>,
               \<lparr>task_id = ''T2'', product_id = ''P2'', required_quantity = 1,
                 duration_hours = 1, priority = 5\<rparr>]\<rparr>"

definition ex_contended_solver :: lp_solver where
  "ex_contended_solver problem =
     \<lparr>status = Infeasible, varValue = (\<lambda>v. Some 1), objective_result = Some 2\<rparr>"

text \<open>What the exact path returns for it, for a forecast of one unit of each product.\<close>

definition ex_contended_result :: OptimizationResult where
  "ex_contended_result =
     \<lparr>success = False, objective_value = 2,
      assignments =
        [\<lparr>a_task_id = ''T1'', a_product_id = ''P1'', a_resource_id = ''R1'',
          a_resource_type = ''machine'', allocated_hours = 1, a_cost = 1\<rparr>,
         \<lparr>a_task_id = ''T2'', a_product_id = ''P2'', a_resource_id = ''R1'',
          a_resource_type = ''machine'', allocated_hours = 1, a_cost = 1\<rparr>],
      utilization = [(''R1'', 200)],
      recommendations = [HighlyUtilized ''R1'' 200], execution_time = 1\<rparr>"

text \<open>A demand history of six points.\<close>

definition ex_planner :: CapacityPlanner where
  "ex_planner = \<lparr>capacity_cost_per_unit = 1000, current_capacity = 100,
     demand_history = [(1, 10), (2, 10), (3, 40), (4, 10), (5, 10), (6, 10)]\<rparr>"

text \<open>A clock that advances one second per reading, and one that advances two.\<close>

definition ex_clock :: clock where
  "ex_clock n = of_nat n"

definition ex_slow_clock :: clock where
  "ex_slow_clock n = 2 * of_nat n"

section \<open>The dictionaries read by key hold the key\<close>

lemma fold_update_keys_mono:
  "k \<in> fst ` set d \<Longrightarrow> k \<in> fst ` set (fold (\<lambda>x d. AList.update (f x) (g x) d) xs d)"
  by (induction xs arbitrary: d) (simp_all add: dom_update)

lemma fold_update_keys:
  "x \<in> set xs \<Longrightarrow> f x \<in> fst ` set (fold (\<lambda>x d. AList.update (f x) (g x) d) xs d)"
proof (induction xs arbitrary: d)
  case Nil
  then show ?case by simp
next
  case (Cons a xs)
  show ?case
  proof (cases "x = a")
    case True
    have "f a \<in> fst ` set (AList.update (f a) (g a) d)" by (simp add: dom_update)
    from fold_update_keys_mono [OF this] True show ?thesis by simp
  next
    case False
    with Cons show ?thesis by simp
  qed
qed

lemma assign_employees_keys_mono:
  "k \<in> fst ` set (l_employee_hours st) \<Longrightarrow>
   k \<in> fst ` set (l_employee_hours (assign_employees d req es n st))"
proof (induction es arbitrary: n st)
  case Nil
  then show ?case by simp
next
  case (Cons e es)
  from Cons.prems have "k \<in> fst ` set (l_employee_hours (assign_shift d req e st))"
    by (simp add: assign_shift_def dom_update)
  with Cons show ?case by simp
qed

lemma assign_requirements_keys_mono:
  "k \<in> fst ` set (l_employee_hours st) \<Longrightarrow>
   k \<in> fst ` set (l_employee_hours (assign_requirements d es reqs st))"
  by (induction reqs arbitrary: st) (simp_all add: assign_employees_keys_mono)

lemma employee_hours_has_every_employee:
  "e \<in> set (employees self) \<Longrightarrow>
   employee_id e \<in> fst ` set (l_employee_hours (sched_assign self d mc))"
  unfolding sched_assign_def
  using fold_update_keys [of e "employees self" employee_id "\<lambda>emp. 0" "[]"]
  by (intro assign_requirements_keys_mono) simp

lemma greedy_assign_keys_mono:
  "k \<in> fst ` set (g_remaining st) \<Longrightarrow>
   k \<in> fst ` set (g_remaining (greedy_assign self fd ts st))"
proof (induction ts arbitrary: st)
  case Nil
  then show ?case by simp
next
  case (Cons task ts)
  then show ?case
    by (simp add: Let_def dom_update split: option.splits)
qed

lemma remaining_capacity_has_every_resource:
  "r \<in> set (resources self) \<Longrightarrow>
   resource_id r \<in> fst ` set (g_remaining (greedy_run self fd h))"
  unfolding greedy_run_def
  using fold_update_keys [of r "resources self" resource_id
      "\<lambda>r. capacity r * res_availability r * of_int h" "[]"]
  by (intro greedy_assign_keys_mono) (simp add: initial_remaining_capacity_def)

lemma dict_get_present:
  "k \<in> fst ` set d \<Longrightarrow> \<exists>v. map_of d k = Some v \<and> dict_get d k dflt = v"
  by (cases "map_of d k") (auto simp: dict_get_def map_of_eq_None_iff)


section \<open>Shift scheduling: no employee is booked twice within one shift length\<close>

lemma no_overlap_append:
  assumes "no_overlap d ss"
    and "\<not> shift_conflict ss (shift_employee_id s) (shift_time_slot s) d"
  shows "no_overlap d (ss @ [s])"
  unfolding no_overlap_def
proof (intro allI impI, elim conjE)
  fix i j
  assume ij: "i < j" and j: "j < length (ss @ [s])"
    and same: "shift_employee_id ((ss @ [s]) ! i) = shift_employee_id ((ss @ [s]) ! j)"
  show "\<not> \<bar>shift_time_slot ((ss @ [s]) ! i) - shift_time_slot ((ss @ [s]) ! j)\<bar> < d"
  proof (cases "j < length ss")
    case True
    with ij same assms(1) show ?thesis
      by (simp add: no_overlap_def nth_append)
  next
    case False
    with j have jl: "j = length ss" by simp
    with ij have il: "i < length ss" by simp
    from il have mem: "ss ! i \<in> set ss" by simp
    from same jl il have "shift_employee_id (ss ! i) = shift_employee_id s"
      by (simp add: nth_append)
    with assms(2) mem have "\<not> \<bar>shift_time_slot (ss ! i) - shift_time_slot s\<bar> < d"
      by (auto simp: shift_conflict_def list_ex_iff)
    with jl il show ?thesis by (simp add: nth_append)
  qed
qed

lemma assign_employees_no_overlap:
  "no_overlap d (l_shifts st) \<Longrightarrow> no_overlap d (l_shifts (assign_employees d req es n st))"
proof (induction es arbitrary: n st)
  case Nil
  then show ?case by simp
next
  case (Cons e es)
  show ?case
  proof (cases "shift_conflict (l_shifts st) (employee_id e) (time_slot req) d")
    case True
    with Cons show ?thesis by simp
  next
    case False
    have "no_overlap d (l_shifts (assign_shift d req e st))"
      unfolding assign_shift_def
      using no_overlap_append [OF Cons.prems,
          of "\<lparr>shift_employee_id = employee_id e, shift_time_slot = time_slot req,
               shift_duration_hours = d, shift_role = req_role req,
               cost = of_int d * cost_per_hour e\<rparr>"] False
      by simp
    with Cons show ?thesis by simp
  qed
qed

lemma assign_requirements_no_overlap:
  "no_overlap d (l_shifts st) \<Longrightarrow> no_overlap d (l_shifts (assign_requirements d es reqs st))"
  by (induction reqs arbitrary: st) (simp_all add: assign_employees_no_overlap)

lemma sched_assign_no_overlap: "no_overlap d (l_shifts (sched_assign self d mc))"
  unfolding sched_assign_def
  by (rule assign_requirements_no_overlap) (simp add: no_overlap_def)

lemma sched_optimize_shifts:
  "sched_optimize now self h d mc = Inr res \<Longrightarrow> shifts res = l_shifts (sched_assign self d mc)"
  by (auto simp: sched_optimize_def Let_def split: sum.splits)

lemma ex_scheduler_run:
  "sched_optimize ex_clock ex_scheduler 168 8 True =
     Inr \<lparr>sched_success = True,
          shifts =
            [\<lparr>shift_employee_id = ''E1'', shift_time_slot = 8, shift_duration_hours = 8,
              shift_role = ''operator'', cost = 160\<rparr>,
             \<lparr>shift_employee_id = ''E1'', shift_time_slot = 0, shift_duration_hours = 8,
              shift_role = ''operator'', cost = 160\<rparr>],
          coverage =
            [(8, 1), (9, 1), (10, 1), (11, 1), (12, 1), (13, 1), (14, 1), (15, 1),
             (0, 1), (1, 1), (2, 1), (3, 1), (4, 1), (5, 1), (6, 1), (7, 1)],
          total_cost = 320, employee_utilization = [(''E1'', 40)],
          sched_recommendations = [LowUtilization 1],
          sched_execution_time = 1\<rparr>"
  by code_simp

text \<open>
  Claim C6. Whatever employees and requirements are registered and whatever the shift
  duration, the shift list that \<open>optimize\<close> returns never holds, at two different
  positions, two shifts of one employee whose time slots are closer than
  \<open>shift_duration\<close>.
\<close>

theorem optimize_no_overlapping_shifts:
  assumes "sched_optimize now self horizon shift_duration minimize_cost = Inr res"
    and "i < j" and "j < length (shifts res)"
    and "shift_employee_id (shifts res ! i) = shift_employee_id (shifts res ! j)"
  shows "\<not> \<bar>shift_time_slot (shifts res ! i) - shift_time_slot (shifts res ! j)\<bar> < shift_duration"
  using assms sched_assign_no_overlap [of shift_duration self minimize_cost]
    sched_optimize_shifts [OF assms(1)]
  unfolding no_overlap_def by metis

theorem optimize_no_overlapping_shifts_witness:
  "(\<exists>res. sched_optimize ex_clock ex_scheduler 168 8 True = Inr res \<and> (0::nat) < 1 \<and>
      1 < length (shifts res) \<and>
      shift_employee_id (shifts res ! 0) = shift_employee_id (shifts res ! 1) \<and>
      \<not> \<bar>shift_time_slot (shifts res ! 0) - shift_time_slot (shifts res ! 1)\<bar> < 8)"
  using optimize_no_overlapping_shifts [OF ex_scheduler_run, of 0 1]
  by (simp add: ex_scheduler_run)

section \<open>Shift scheduling: the success flag and the empty catalogs\<close>

text \<open>Whenever \<open>optimize\<close> returns, \<open>success\<close> says whether a shift was assigned.\<close>

lemma sched_success_iff_shift_assigned:
  "sched_optimize now self h d mc = Inr res \<Longrightarrow> sched_success res = (shifts res \<noteq> [])"
  by (auto simp: sched_optimize_def Let_def split: sum.splits)

lemma assign_requirements_no_employees:
  "assign_requirements d [] reqs st = st"
  by (induction reqs arbitrary: st) simp_all

lemma round2_zero: "round2 0 = 0"
  by (simp add: round2_def round_half_even_def)

text \<open>With no employee registered the call returns, with no shift and no cost.\<close>

lemma sched_optimize_no_employees:
  assumes "employees self = []"
  shows "\<exists>res. sched_optimize now self h d mc = Inr res \<and> \<not> sched_success res \<and>
           shifts res = [] \<and> total_cost res = 0"
  using assms
  by (simp add: sched_optimize_def sched_assign_def sched_sorted_employees_def sorted_by_def
      assign_requirements_no_employees round2_zero Let_def)

text \<open>With no requirement registered no shift is assigned; the call returns exactly
  when no registered employee has \<open>max_hours_per_week = 0\<close>.\<close>

lemma compute_employee_utilization_returns:
  "(\<exists>util. compute_employee_utilization hours es acc = Inr util)
     = (\<forall>e\<in>set es. max_hours_per_week e \<noteq> 0)"
  by (induction es arbitrary: acc) auto

lemma sched_optimize_no_requirements:
  assumes "requirements self = []" and "\<forall>e\<in>set (employees self). max_hours_per_week e \<noteq> 0"
  shows "\<exists>res. sched_optimize now self h d mc = Inr res \<and> \<not> sched_success res \<and>
           shifts res = [] \<and> total_cost res = 0"
proof -
  from assms(1) have st: "l_shifts (sched_assign self d mc) = []"
    by (simp add: sched_assign_def sched_sorted_requirements_def sorted_by_reverse_def)
  from assms(2) obtain util where
    "compute_employee_utilization (l_employee_hours (sched_assign self d mc)) (employees self) []
       = Inr util"
    using compute_employee_utilization_returns by blast
  with st show ?thesis
    by (simp add: sched_optimize_def Let_def round2_zero)
qed

text \<open>
  Claim C9 says that \<open>optimize\<close> returns \<open>success = true\<close> exactly when a shift was
  assigned, and that with zero employees or zero requirements it returns a result with
  \<open>success = false\<close>, no shift and zero cost instead of raising. The first part and the
  case of zero employees hold (lemmas above). With zero requirements and a registered
  employee whose \<open>max_hours_per_week\<close> is 0, the utilization loop divides by zero and
  the call raises \<open>ZeroDivisionError\<close>.
\<close>

theorem optimize_no_requirements_raises:
  "sched_optimize ex_clock ex_no_requirements_scheduler 168 8 True = Inl ZeroDivisionError"
  by code_simp

section \<open>Shift scheduling: the understaffing recommendation\<close>

text \<open>The recommendation is emitted exactly when the count is positive, and for
  eight-hour shifts the count is the one of the specification.\<close>

lemma insufficient_coverage_emitted_iff:
  "(InsufficientCoverage n \<in> set (sched_generate_recommendations ss cov util reqs))
     = (n = length (understaffed_slots cov reqs) \<and> 0 < n)"
  by (auto simp: sched_generate_recommendations_def Let_def)

lemma understaffed_slots_eight_hours:
  "length (understaffed_slots cov reqs) = spec_understaffed_count cov 8 reqs"
  by (simp add: understaffed_slots_def spec_understaffed_count_def spec_window_coverage_def
      actual_coverage_def)

text \<open>
  Claim C4 says that the understaffing recommendation counts the requirements whose
  average coverage over \<open>[time_slot, time_slot + shift_duration)\<close> is below 80 percent of
  \<open>required_count\<close>. The code averages over eight hours whatever the shift duration.
  With four-hour shifts, one employee and one requirement for one employee at slot 0,
  the requirement is fully covered over its window (the count of the specification
  is 0), and the code reports one slot with insufficient coverage.
\<close>

theorem understaffed_window_is_eight_hours:
  "sched_optimize ex_clock ex_short_shift_scheduler 168 4 True =
     Inr \<lparr>sched_success = True,
          shifts = [\<lparr>shift_employee_id = ''E1'', shift_time_slot = 0, shift_duration_hours = 4,
                     shift_role = ''operator'', cost = 80\<rparr>],
          coverage = [(0, 1), (1, 1), (2, 1), (3, 1)],
          total_cost = 80, employee_utilization = [(''E1'', 10)],
          sched_recommendations = [InsufficientCoverage 1, LowUtilization 1],
          sched_execution_time = 1\<rparr>
   \<and> spec_understaffed_count [(0, 1), (1, 1), (2, 1), (3, 1)] 4
         (requirements ex_short_shift_scheduler) = 0"
  by code_simp

section \<open>Degenerate inputs\<close>

lemma analyze_trend_returns: "\<exists>t. analyze_trend self = Inr t"
  by (auto simp: analyze_trend_def Let_def mean_def)

lemma plan_capacity_no_forecast:
  "plan_capacity now self [] n target_utilization revenue_per_unit = Inl StatisticsError"
proof -
  obtain t where t: "analyze_trend self = Inr t"
    using analyze_trend_returns by blast
  have p: "py_prefix n ([] :: (string \<times> rat) list list) = []"
    by (simp add: py_prefix_def)
  have h: "high_plan self [] revenue_per_unit = Inr []"
    by (simp add: high_plan_def)
  obtain ps where ps: "generate_expansion_plans self [] revenue_per_unit t = Inr ps"
    by (simp add: generate_expansion_plans_def h)
  have r: "plan_generate_recommendations [] ps t = Inl StatisticsError"
    by (simp add: plan_generate_recommendations_def mean_def)
  show ?thesis
    by (simp add: plan_capacity_def t p ps r Let_def)
qed

text \<open>
  Claim C1 says that no call of the three optimizers raises on a well-formed input, the
  degenerate ones included. The code raises on three of them: \<open>plan_capacity\<close> on an
  empty forecast list (the mean of no utilization rate, \<open>StatisticsError\<close>, for every
  planner and every other argument); the scheduler on an employee with
  \<open>max_hours_per_week = 0\<close>; the resource optimizer, on either path, on a resource with
  \<open>capacity = 0\<close> (\<open>ZeroDivisionError\<close>).
\<close>

theorem degenerate_inputs_raise:
  "plan_capacity now self [] n target_utilization revenue_per_unit = Inl StatisticsError
   \<and> sched_optimize ex_clock ex_zero_hours_scheduler 168 8 True = Inl ZeroDivisionError
   \<and> res_optimize False ex_solver ex_clock ex_zero_capacity_optimizer [(''P1'', 2)] 10 True
       = Inl ZeroDivisionError
   \<and> res_optimize True ex_solver ex_clock ex_zero_capacity_optimizer [(''P1'', 2)] 10 True
       = Inl ZeroDivisionError"
proof (intro conjI)
  show "plan_capacity now self [] n target_utilization revenue_per_unit = Inl StatisticsError"
    by (rule plan_capacity_no_forecast)
  show "sched_optimize ex_clock ex_zero_hours_scheduler 168 8 True = Inl ZeroDivisionError"
    by code_simp
  show "res_optimize False ex_solver ex_clock ex_zero_capacity_optimizer [(''P1'', 2)] 10 True
       = Inl ZeroDivisionError"
    by code_simp
  show "res_optimize True ex_solver ex_clock ex_zero_capacity_optimizer [(''P1'', 2)] 10 True
       = Inl ZeroDivisionError"
    by code_simp
qed

section \<open>Resource allocation: the two utilization formulas\<close>

lemma ex_greedy_run:
  "res_optimize False ex_solver ex_clock ex_optimizer [(''P1'', 2)] 10 True =
     Inr \<lparr>success = True, objective_value = 4,
          assignments =
            [\<lparr>a_task_id = ''T1'', a_product_id = ''P1'', a_resource_id = ''R1'',
              a_resource_type = ''machine'', allocated_hours = 4, a_cost = 20\<rparr>],
          utilization = [(''R1'', 8)],
          recommendations = [UnderUtilized ''R1'' 8], execution_time = 1\<rparr>"
  by code_simp

lemma ex_exact_run:
  "res_optimize True ex_solver ex_clock ex_optimizer [(''P1'', 2)] 10 True =
     Inr \<lparr>success = True, objective_value = 20,
          assignments =
            [\<lparr>a_task_id = ''T1'', a_product_id = ''P1'', a_resource_id = ''R1'',
              a_resource_type = ''machine'', allocated_hours = 4, a_cost = 20\<rparr>],
          utilization = [(''R1'', 4)],
          recommendations = [UnderUtilized ''R1'' 4], execution_time = 1\<rparr>"
  by code_simp

text \<open>
  Claim C2 says that both paths report, for every resource, the total allocated hours
  over \<open>capacity * horizon_hours\<close> in percent, rounded to two decimals. The exact path
  does; the fallback divides by \<open>capacity * availability * horizon_hours\<close>. For a
  resource of capacity 10 that is available half of the time, four allocated hours in a
  horizon of ten hours are 4 percent by the formula of the claim and on the exact path,
  and 8 percent on the fallback.
\<close>

theorem fallback_utilization_includes_availability:
  "res_optimize False ex_solver ex_clock ex_optimizer [(''P1'', 2)] 10 True =
     Inr \<lparr>success = True, objective_value = 4,
          assignments =
            [\<lparr>a_task_id = ''T1'', a_product_id = ''P1'', a_resource_id = ''R1'',
              a_resource_type = ''machine'', allocated_hours = 4, a_cost = 20\<rparr>],
          utilization = [(''R1'', 8)],
          recommendations = [UnderUtilized ''R1'' 8], execution_time = 1\<rparr>
   \<and> res_optimize True ex_solver ex_clock ex_optimizer [(''P1'', 2)] 10 True =
     Inr \<lparr>success = True, objective_value = 20,
          assignments =
            [\<lparr>a_task_id = ''T1'', a_product_id = ''P1'', a_resource_id = ''R1'',
              a_resource_type = ''machine'', allocated_hours = 4, a_cost = 20\<rparr>],
          utilization = [(''R1'', 4)],
          recommendations = [UnderUtilized ''R1'' 4], execution_time = 1\<rparr>
   \<and> spec_utilization ex_resource 10 4 = 4"
proof (intro conjI)
  show "spec_utilization ex_resource 10 4 = 4"
    by code_simp
qed (rule ex_greedy_run ex_exact_run)+

section \<open>Resource allocation: success and objective value\<close>

text \<open>With a forecast of 3 units the problem of \<open>ex_optimizer\<close> has no solution.\<close>

lemma ex_problem_infeasible:
  "\<not> feasible (build_problem ex_optimizer [(''P1'', 3)] 10 True) out"
  by (simp add: feasible_def build_problem_def decision_variables_def capacity_constraints_def
      demand_constraints_def ex_optimizer_def ex_resource_def ex_task_def dict_get_def
      constraint_holds_def bounds_hold_def)

text \<open>
  Claim C5 says that on the exact path the objective value is the solver's, and 0 when
  the problem is infeasible. The code reports whatever value the solver's objective has
  and 0 only when it has none; it does not look at the status. For the infeasible
  problem above and a solver that reports \<open>Infeasible\<close> with the variable left at its
  bound, the result has \<open>success = false\<close> and the objective value 25.
\<close>

theorem infeasible_objective_not_zero:
  "res_optimize True ex_infeasible_solver ex_clock ex_optimizer [(''P1'', 3)] 10 True =
     Inr \<lparr>success = False, objective_value = 25,
          assignments =
            [\<lparr>a_task_id = ''T1'', a_product_id = ''P1'', a_resource_id = ''R1'',
              a_resource_type = ''machine'', allocated_hours = 5, a_cost = 25\<rparr>],
          utilization = [(''R1'', 5)],
          recommendations = [UnderUtilized ''R1'' 5], execution_time = 1\<rparr>"
  by code_simp

text \<open>
  Claim C5, amended. Whenever \<open>optimize\<close> returns a result: on the exact path \<open>success\<close>
  is true exactly when the solver's status is optimal, and the objective value is the
  value of the solver's objective, or 0 when that has no value, whatever the status; on
  the fallback \<open>success\<close> is true and the objective value is the sum of the allocated
  hours of the assignments.
\<close>

theorem success_and_objective:
  assumes "res_optimize pulp_available solve now self fd h minimize_cost = Inr res"
  shows "if pulp_available
         then success res = (status (solve (build_problem self fd h minimize_cost)) = Optimal)
              \<and> objective_value res =
                  (case objective_result (solve (build_problem self fd h minimize_cost)) of
                     None \<Rightarrow> 0 | Some v \<Rightarrow> v)
         else success res
              \<and> objective_value res = sum_list (map allocated_hours (assignments res))"
  using assms
  by (auto simp: res_optimize_def simple_optimization_def Let_def
      split: sum.splits if_splits prod.splits)

theorem success_and_objective_witness:
  "(\<exists>res. res_optimize True ex_solver ex_clock ex_optimizer [(''P1'', 2)] 10 True = Inr res
      \<and> success res \<and> objective_value res = 20)
   \<and> (\<exists>res. res_optimize False ex_solver ex_clock ex_optimizer [(''P1'', 2)] 10 True = Inr res
      \<and> success res \<and> objective_value res = 4
      \<and> sum_list (map allocated_hours (assignments res)) = 4)"
  using success_and_objective [OF ex_exact_run] success_and_objective [OF ex_greedy_run]
  by (simp add: ex_exact_run ex_greedy_run ex_solver_def)

section \<open>Resource allocation: the capacity constraint\<close>

lemma hours_on_Nil: "hours_on [] rid = 0"
  by (simp add: hours_on_def)

lemma hours_on_append: "hours_on (xs @ ys) rid = hours_on xs rid + hours_on ys rid"
  by (simp add: hours_on_def)

lemma hours_on_single:
  "hours_on [(t, r, q)] rid = (if resource_id r = rid then q else 0)"
  by (simp add: hours_on_def)

lemma dict_get_update:
  "dict_get (AList.update k v d) k' dflt = (if k' = k then v else dict_get d k' dflt)"
  by (simp add: dict_get_def update_conv')

subsection \<open>The fallback\<close>

text \<open>Every step of the greedy loop moves hours from the remaining capacity of a
  resource id to the allocations on that id.\<close>

lemma greedy_assign_balance:
  "dict_get (g_remaining (greedy_assign self fd ts st)) rid 0
     + hours_on (g_allocations (greedy_assign self fd ts st)) rid
   = dict_get (g_remaining st) rid 0 + hours_on (g_allocations st) rid"
proof (induction ts arbitrary: st)
  case Nil
  then show ?case by simp
next
  case (Cons task ts)
  show ?case
    by (simp add: Let_def Cons.IH hours_on_append hours_on_single dict_get_update
        split: option.splits)
qed

text \<open>No step takes more than what remains.\<close>

lemma greedy_assign_remaining_nonneg:
  "\<forall>rid. 0 \<le> dict_get (g_remaining st) rid 0 \<Longrightarrow>
   0 \<le> dict_get (g_remaining (greedy_assign self fd ts st)) rid 0"
proof (induction ts arbitrary: st)
  case Nil
  then show ?case by simp
next
  case (Cons task ts)
  show ?case
  proof (cases "dict_get fd (product_id task) 0 = 0")
    case True
    with Cons show ?thesis by simp
  next
    case False
    show ?thesis
    proof (cases "best_resource self (g_remaining st) task")
      case None
      with False Cons show ?thesis by simp
    next
      case (Some best)
      define rem where "rem = dict_get (g_remaining st) (resource_id best) 0"
      define hours where
        "hours = min (duration_hours task * dict_get fd (product_id task) 0) rem"
      define st' where
        "st' = \<lparr>g_allocations = g_allocations st @ [(task, best, hours)],
                g_remaining = AList.update (resource_id best) (rem - hours) (g_remaining st)\<rparr>"
      have "hours \<le> rem" by (simp add: hours_def)
      with Cons.prems have "\<forall>rid. 0 \<le> dict_get (g_remaining st') rid 0"
        by (simp add: st'_def dict_get_update)
      from Cons.IH [OF this]
      have "0 \<le> dict_get (g_remaining (greedy_assign self fd ts st')) rid 0" .
      with False Some show ?thesis
        by (simp add: Let_def st'_def hours_def rem_def)
    qed
  qed
qed

lemma fold_update_other:
  "k \<notin> f ` set rs \<Longrightarrow> map_of (fold (\<lambda>r d. AList.update (f r) (g r) d) rs d) k = map_of d k"
  by (induction rs arbitrary: d) (auto simp: update_conv')

lemma fold_update_distinct:
  "distinct (map f rs) \<Longrightarrow> r \<in> set rs \<Longrightarrow>
   map_of (fold (\<lambda>r d. AList.update (f r) (g r) d) rs d) (f r) = Some (g r)"
proof (induction rs arbitrary: d)
  case Nil
  then show ?case by simp
next
  case (Cons a rs)
  show ?case
  proof (cases "r = a")
    case True
    with Cons.prems have "f a \<notin> f ` set rs" by auto
    then have "map_of (fold (\<lambda>r d. AList.update (f r) (g r) d) rs (AList.update (f a) (g a) d)) (f a)
        = map_of (AList.update (f a) (g a) d) (f a)"
      by (rule fold_update_other)
    with True show ?thesis by (simp add: update_conv')
  next
    case False
    with Cons show ?thesis by auto
  qed
qed

lemma fold_update_range:
  "map_of (fold (\<lambda>r d. AList.update (f r) (g r) d) rs d) k = Some v \<Longrightarrow>
   map_of d k = Some v \<or> (\<exists>r\<in>set rs. v = g r)"
proof (induction rs arbitrary: d)
  case Nil
  then show ?case by simp
next
  case (Cons a rs)
  from Cons.prems
  have "map_of (fold (\<lambda>r d. AList.update (f r) (g r) d) rs (AList.update (f a) (g a) d)) k = Some v"
    by simp
  from Cons.IH [OF this] show ?case
    by (auto simp: update_conv' split: if_splits)
qed

lemma initial_remaining_at:
  "distinct (map resource_id (resources self)) \<Longrightarrow> r \<in> set (resources self) \<Longrightarrow>
   dict_get (initial_remaining_capacity self h) (resource_id r) 0
     = capacity r * res_availability r * of_int h"
  unfolding initial_remaining_capacity_def dict_get_def
  using fold_update_distinct [of resource_id "resources self" r
      "\<lambda>r. capacity r * res_availability r * of_int h" "[]"]
  by simp

lemma initial_remaining_nonneg:
  assumes "\<forall>r\<in>set (resources self). 0 \<le> capacity r * res_availability r * of_int h"
  shows "0 \<le> dict_get (initial_remaining_capacity self h) rid 0"
proof (cases "map_of (initial_remaining_capacity self h) rid")
  case None
  then show ?thesis by (simp add: dict_get_def)
next
  case (Some v)
  then have "\<exists>r\<in>set (resources self). v = capacity r * res_availability r * of_int h"
    unfolding initial_remaining_capacity_def
    using fold_update_range [of resource_id "\<lambda>r. capacity r * res_availability r * of_int h"
        "resources self" "[]" rid v]
    by simp
  with assms Some show ?thesis by (auto simp: dict_get_def)
qed

lemma greedy_run_capacity:
  assumes "distinct (map resource_id (resources self))"
    and "\<forall>r\<in>set (resources self). 0 \<le> capacity r * res_availability r * of_int h"
    and "r \<in> set (resources self)"
  shows "hours_on (g_allocations (greedy_run self fd h)) (resource_id r)
           \<le> capacity r * res_availability r * of_int h"
proof -
  let ?st0 = "\<lparr>g_allocations = [], g_remaining = initial_remaining_capacity self h\<rparr>"
  let ?ts = "sorted_by_reverse priority (tasks self)"
  have bal: "dict_get (g_remaining (greedy_assign self fd ?ts ?st0)) (resource_id r) 0
         + hours_on (g_allocations (greedy_assign self fd ?ts ?st0)) (resource_id r)
       = dict_get (initial_remaining_capacity self h) (resource_id r) 0"
    using greedy_assign_balance [of self fd ?ts ?st0 "resource_id r"]
    by (simp add: hours_on_Nil)
  have "\<forall>rid. 0 \<le> dict_get (g_remaining ?st0) rid 0"
    using initial_remaining_nonneg [OF assms(2)] by simp
  from greedy_assign_remaining_nonneg [OF this]
  have nn: "0 \<le> dict_get (g_remaining (greedy_assign self fd ?ts ?st0)) (resource_id r) 0" .
  from bal nn initial_remaining_at [OF assms(1) assms(3)] show ?thesis
    by (simp add: greedy_run_def)
qed

subsection \<open>The exact path\<close>

lemma extract_tasks_eq:
  "extract_tasks out resource ts (allocs, tot) =
     (allocs @ positive_allocations out resource ts,
      tot + sum_list (map (\<lambda>(t, r, q). q) (positive_allocations out resource ts)))"
  by (induction ts arbitrary: allocs tot) (simp_all add: positive_allocations_def Let_def)

lemma extract_results_allocs:
  "extract_results out self h rs (allocs, util) = Inr (allocs', util') \<Longrightarrow>
   allocs' = allocs @ concat (map (\<lambda>r. positive_allocations out r (tasks self)) rs)"
proof (induction rs arbitrary: allocs util)
  case Nil
  then show ?case by simp
next
  case (Cons r rs)
  from Cons.prems obtain u where
    "extract_results out self h rs (allocs @ positive_allocations out r (tasks self), u)
       = Inr (allocs', util')"
    by (auto simp: extract_tasks_eq split: if_splits)
  from Cons.IH [OF this] show ?case by simp
qed

lemma hours_on_positive_allocations:
  "hours_on (positive_allocations out r ts) rid =
     (if resource_id r = rid
      then sum_list (map (\<lambda>(t, r, q). q) (positive_allocations out r ts)) else 0)"
  by (induction ts) (auto simp: hours_on_def positive_allocations_def)

lemma hours_on_concat_other:
  "rid \<notin> resource_id ` set rs \<Longrightarrow>
   hours_on (concat (map (\<lambda>r. positive_allocations out r ts) rs)) rid = 0"
  by (induction rs) (auto simp: hours_on_positive_allocations hours_on_append hours_on_Nil)

lemma hours_on_concat_distinct:
  "distinct (map resource_id rs) \<Longrightarrow> r \<in> set rs \<Longrightarrow>
   hours_on (concat (map (\<lambda>r. positive_allocations out r ts) rs)) (resource_id r)
     = sum_list (map (\<lambda>(t, r, q). q) (positive_allocations out r ts))"
proof (induction rs)
  case Nil
  then show ?case by simp
next
  case (Cons a rs)
  show ?case
  proof (cases "r = a")
    case True
    with Cons.prems have "resource_id a \<notin> resource_id ` set rs" by auto
    from hours_on_concat_other [OF this] True show ?thesis
      by (simp add: hours_on_positive_allocations hours_on_append)
  next
    case False
    with Cons.prems have "resource_id a \<noteq> resource_id r" by auto
    with False Cons show ?thesis
      by (simp add: hours_on_positive_allocations hours_on_append)
  qed
qed

lemma positive_sum_eq:
  "\<forall>t\<in>set ts. 0 \<le> value_or_0 out (task_id t, resource_id r) \<Longrightarrow>
   sum_list (map (\<lambda>(t, r, q). q) (positive_allocations out r ts))
     = sum_list (map (\<lambda>t. value_or_0 out (task_id t, resource_id r)) ts)"
proof (induction ts)
  case Nil
  then show ?case by (simp add: positive_allocations_def)
next
  case (Cons t ts)
  then have ih: "sum_list (map (\<lambda>(t, r, q). q) (positive_allocations out r ts))
     = sum_list (map (\<lambda>t. value_or_0 out (task_id t, resource_id r)) ts)"
    by simp
  from Cons.prems have "0 \<le> value_or_0 out (task_id t, resource_id r)" by simp
  with ih show ?case
    unfolding positive_allocations_def
    by (cases "value_or_0 out (task_id t, resource_id r) = 0") auto
qed

text \<open>The problem that \<open>optimize\<close> posts bounds every variable below by 0 and holds,
  for every resource, the capacity constraint over the variables of all tasks.\<close>

lemma feasible_bounds:
  assumes "feasible (build_problem self fd h mc) out"
    and "r \<in> set (resources self)" and "t \<in> set (tasks self)"
  shows "0 \<le> value_or_0 out (task_id t, resource_id r)"
proof -
  let ?b = "\<lparr>bounded_var = (task_id t, resource_id r), lowBound = 0,
         upBound = capacity r * res_availability r\<rparr>"
  from assms(2,3) have "?b \<in> set (decision_variables self)"
    by (force simp: decision_variables_def)
  with assms(1) have "bounds_hold out ?b"
    by (simp add: feasible_def build_problem_def list_all_iff)
  then show ?thesis by (simp add: bounds_hold_def)
qed

lemma feasible_capacity:
  assumes "feasible (build_problem self fd h mc) out" and "r \<in> set (resources self)"
  shows "sum_list (map (\<lambda>t. value_or_0 out (task_id t, resource_id r)) (tasks self))
           \<le> capacity r * res_availability r * of_int h"
proof -
  let ?c = "\<lparr>constraint_name = ''Capacity_'' @ resource_id r,
         constraint_vars = map (\<lambda>task. (task_id task, resource_id r)) (tasks self),
         constraint_rel = LessEq,
         constraint_rhs = capacity r * res_availability r * of_int h\<rparr>"
  from assms(2) have "?c \<in> set (capacity_constraints self h)"
    by (force simp: capacity_constraints_def)
  with assms(1) have "constraint_holds out ?c"
    by (simp add: feasible_def build_problem_def list_all_iff)
  then show ?thesis by (simp add: constraint_holds_def comp_def)
qed

lemma exact_capacity:
  assumes "extract_results out self h (resources self) ([], []) = Inr (allocs, util)"
    and "distinct (map resource_id (resources self))"
    and "feasible (build_problem self fd h mc) out"
    and "r \<in> set (resources self)"
  shows "hours_on allocs (resource_id r) \<le> capacity r * res_availability r * of_int h"
proof -
  from extract_results_allocs [OF assms(1)]
  have "allocs = concat (map (\<lambda>r. positive_allocations out r (tasks self)) (resources self))"
    by simp
  with hours_on_concat_distinct [OF assms(2) assms(4)]
  have "hours_on allocs (resource_id r)
          = sum_list (map (\<lambda>(t, r, q). q) (positive_allocations out r (tasks self)))"
    by simp
  also have "\<dots> = sum_list (map (\<lambda>t. value_or_0 out (task_id t, resource_id r)) (tasks self))"
    using feasible_bounds [OF assms(3) assms(4)] by (intro positive_sum_eq) blast
  also have "\<dots> \<le> capacity r * res_availability r * of_int h"
    by (rule feasible_capacity [OF assms(3) assms(4)])
  finally show ?thesis .
qed

subsection \<open>The claim\<close>

lemma ex_fraction_run:
  "res_optimize False ex_solver ex_clock ex_fraction_optimizer [(''P1'', 2)] 1 True
     = Inr ex_fraction_result"
  by code_simp

lemma ex_contended_run:
  "res_optimize True ex_contended_solver ex_clock ex_contended_optimizer
       [(''P1'', 1), (''P2'', 1)] 1 True
     = Inr ex_contended_result"
  by code_simp

lemma ex_contended_infeasible:
  "\<not> feasible (build_problem ex_contended_optimizer [(''P1'', 1), (''P2'', 1)] 1 True) out"
  by (auto simp: feasible_def build_problem_def decision_variables_def capacity_constraints_def
      demand_constraints_def ex_contended_optimizer_def ex_contended_resource_def dict_get_def
      constraint_holds_def bounds_hold_def)

text \<open>
  Claim C7 says that on both paths and for every input the hours assigned to a resource
  sum to at most \<open>capacity * availability * horizon_hours\<close>. Two runs violate it.
  On the fallback, a resource with 0.9375 hours receives all of them and the assignment
  reports them rounded, 0.94 hours. On the exact path the assignments are read from the
  solver whatever its status: for a problem without solution and a solver that reports
  \<open>Infeasible\<close> with both variables at 1, the assignments give two hours to a resource
  that has one.
\<close>

theorem capacity_exceeded:
  "res_optimize False ex_solver ex_clock ex_fraction_optimizer [(''P1'', 2)] 1 True
     = Inr ex_fraction_result
   \<and> capacity ex_fraction_resource * res_availability ex_fraction_resource * of_int 1
       < reported_hours_on (assignments ex_fraction_result) (resource_id ex_fraction_resource)
   \<and> res_optimize True ex_contended_solver ex_clock ex_contended_optimizer
         [(''P1'', 1), (''P2'', 1)] 1 True
     = Inr ex_contended_result
   \<and> capacity ex_contended_resource * res_availability ex_contended_resource * of_int 1
       < reported_hours_on (assignments ex_contended_result) (resource_id ex_contended_resource)"
proof (intro conjI)
  show "res_optimize False ex_solver ex_clock ex_fraction_optimizer [(''P1'', 2)] 1 True
     = Inr ex_fraction_result"
    by (rule ex_fraction_run)
  show "capacity ex_fraction_resource * res_availability ex_fraction_resource * of_int 1
       < reported_hours_on (assignments ex_fraction_result) (resource_id ex_fraction_resource)"
    by (simp add: ex_fraction_resource_def ex_fraction_result_def reported_hours_on_def)
  show "res_optimize True ex_contended_solver ex_clock ex_contended_optimizer
         [(''P1'', 1), (''P2'', 1)] 1 True
     = Inr ex_contended_result"
    by (rule ex_contended_run)
  show "capacity ex_contended_resource * res_availability ex_contended_resource * of_int 1
       < reported_hours_on (assignments ex_contended_result) (resource_id ex_contended_resource)"
    by (simp add: ex_contended_resource_def ex_contended_result_def reported_hours_on_def)
qed

text \<open>
  Claim C7, amended. Let the resource ids be distinct and
  \<open>capacity * availability * horizon_hours\<close> be nonnegative for every resource, and on
  the exact path let the values read from the solver satisfy the bounds and constraints
  of the posted problem. Then, whenever \<open>optimize\<close> returns a result, its assignments
  are the roundings of allocations whose hours, before rounding, sum for every resource
  to at most \<open>capacity * availability * horizon_hours\<close>.
\<close>

theorem capacity_respected_before_rounding:
  assumes run: "res_optimize pulp_available solve now self fd h minimize_cost = Inr res"
    and dist: "distinct (map resource_id (resources self))"
    and nonneg: "\<forall>r\<in>set (resources self). 0 \<le> capacity r * res_availability r * of_int h"
    and feas: "pulp_available \<longrightarrow>
               feasible (build_problem self fd h minimize_cost)
                 (solve (build_problem self fd h minimize_cost))"
  shows "\<exists>allocs. assignments res = map assignment_of allocs \<and>
           (\<forall>r\<in>set (resources self).
              hours_on allocs (resource_id r) \<le> capacity r * res_availability r * of_int h)"
proof (cases pulp_available)
  case True
  let ?out = "solve (build_problem self fd h minimize_cost)"
  from run True obtain allocs util where
    ex: "extract_results ?out self h (resources self) ([], []) = Inr (allocs, util)"
    and asg: "assignments res = map assignment_of allocs"
    by (auto simp: res_optimize_def Let_def split: sum.splits prod.splits)
  from feas True have f: "feasible (build_problem self fd h minimize_cost) ?out" by simp
  have "\<forall>r\<in>set (resources self).
          hours_on allocs (resource_id r) \<le> capacity r * res_availability r * of_int h"
    using exact_capacity [OF ex dist f] by blast
  with asg show ?thesis by blast
next
  case False
  with run have "assignments res = map assignment_of (g_allocations (greedy_run self fd h))"
    by (auto simp: res_optimize_def simple_optimization_def Let_def split: sum.splits)
  moreover have "\<forall>r\<in>set (resources self).
      hours_on (g_allocations (greedy_run self fd h)) (resource_id r)
        \<le> capacity r * res_availability r * of_int h"
    using greedy_run_capacity [OF dist nonneg] by blast
  ultimately show ?thesis by blast
qed

lemma ex_problem_feasible:
  "feasible (build_problem ex_optimizer [(''P1'', 2)] 10 True)
     (ex_solver (build_problem ex_optimizer [(''P1'', 2)] 10 True))"
  by code_simp

theorem capacity_respected_before_rounding_witness:
  "(\<exists>res allocs.
      res_optimize True ex_solver ex_clock ex_optimizer [(''P1'', 2)] 10 True = Inr res
      \<and> feasible (build_problem ex_optimizer [(''P1'', 2)] 10 True)
           (ex_solver (build_problem ex_optimizer [(''P1'', 2)] 10 True))
      \<and> assignments res = map assignment_of allocs
      \<and> hours_on allocs ''R1'' \<le> 10 * (1 / 2) * of_int 10)
   \<and> (\<exists>res allocs.
      res_optimize False ex_solver ex_clock ex_optimizer [(''P1'', 2)] 10 True = Inr res
      \<and> assignments res = map assignment_of allocs
      \<and> hours_on allocs ''R1'' \<le> 10 * (1 / 2) * of_int 10)"
proof -
  have d: "distinct (map resource_id (resources ex_optimizer))"
    by (simp add: ex_optimizer_def)
  have n: "\<forall>r\<in>set (resources ex_optimizer). 0 \<le> capacity r * res_availability r * of_int 10"
    by (simp add: ex_optimizer_def ex_resource_def)
  have r: "ex_resource \<in> set (resources ex_optimizer)"
    by (simp add: ex_optimizer_def)
  have v: "resource_id ex_resource = ''R1''" "capacity ex_resource = 10"
    "res_availability ex_resource = 1 / 2"
    by (simp_all add: ex_resource_def)
  have f: "True \<longrightarrow> feasible (build_problem ex_optimizer [(''P1'', 2)] 10 True)
     (ex_solver (build_problem ex_optimizer [(''P1'', 2)] 10 True))"
    using ex_problem_feasible by simp
  have g: "False \<longrightarrow> feasible (build_problem ex_optimizer [(''P1'', 2)] 10 True)
     (ex_solver (build_problem ex_optimizer [(''P1'', 2)] 10 True))"
    by simp
  from capacity_respected_before_rounding [OF ex_exact_run d n f] r v
  have a: "\<exists>allocs. assignments (projr (res_optimize True ex_solver ex_clock ex_optimizer [(''P1'', 2)] 10 True)) = map assignment_of allocs
      \<and> hours_on allocs ''R1'' \<le> 10 * (1 / 2) * of_int 10"
    unfolding ex_exact_run by force
  from capacity_respected_before_rounding [OF ex_greedy_run d n g] r v
  have b: "\<exists>allocs. assignments (projr (res_optimize False ex_solver ex_clock ex_optimizer [(''P1'', 2)] 10 True)) = map assignment_of allocs
      \<and> hours_on allocs ''R1'' \<le> 10 * (1 / 2) * of_int 10"
    unfolding ex_greedy_run by force
  from a b ex_problem_feasible show ?thesis
    unfolding ex_exact_run ex_greedy_run by simp
qed

section \<open>Resource allocation: the fallback does not read \<open>minimize_cost\<close>\<close>

text \<open>The scan of the fallback finds a resource exactly when one has the task's
  duration left, and the one it finds is cheapest among those.\<close>

lemma best_resource_None:
  assumes "best_resource self remaining task = None" and "r \<in> set (resources self)"
  shows "dict_get remaining (resource_id r) 0 < duration_hours task"
  using assms by (auto simp: best_resource_def sorted_by_def find_None_iff not_le)

lemma best_resource_Some:
  assumes "best_resource self remaining task = Some best"
  shows "best \<in> set (resources self)"
    and "duration_hours task \<le> dict_get remaining (resource_id best) 0"
    and "\<And>r. r \<in> set (resources self) \<Longrightarrow>
           duration_hours task \<le> dict_get remaining (resource_id r) 0 \<Longrightarrow>
           res_cost_per_hour best \<le> res_cost_per_hour r"
proof -
  let ?xs = "sort_key res_cost_per_hour (resources self)"
  let ?P = "\<lambda>r. duration_hours task \<le> dict_get remaining (resource_id r) 0"
  from assms obtain i where i: "i < length ?xs" "?P (?xs ! i)" "best = ?xs ! i"
    and first: "\<forall>j<i. \<not> ?P (?xs ! j)"
    by (auto simp: best_resource_def sorted_by_def find_Some_iff)
  from i(1,3) have "best \<in> set ?xs" using nth_mem by blast
  then show "best \<in> set (resources self)" by simp
  from i show "duration_hours task \<le> dict_get remaining (resource_id best) 0" by simp
  fix r assume r: "r \<in> set (resources self)" and able: "?P r"
  then have "r \<in> set ?xs" by simp
  then obtain k where k: "k < length ?xs" "r = ?xs ! k" by (metis in_set_conv_nth)
  with able first have "i \<le> k" by (metis not_le_imp_less)
  have "sorted (map res_cost_per_hour ?xs)" by simp
  with \<open>i \<le> k\<close> k(1) have "map res_cost_per_hour ?xs ! i \<le> map res_cost_per_hour ?xs ! k"
    by (intro sorted_nth_mono) simp_all
  with i k \<open>i \<le> k\<close> show "res_cost_per_hour best \<le> res_cost_per_hour r" by simp
qed

lemma greedy_assign_follows_rule:
  "\<exists>new. g_allocations (greedy_assign self fd ts st) = g_allocations st @ new \<and>
         greedy_rule (resources self) fd (\<lambda>rid. dict_get (g_remaining st) rid 0) ts new"
proof (induction ts arbitrary: st)
  case Nil
  show ?case by (simp add: greedy_rule.no_task)
next
  case (Cons task ts)
  let ?rem = "\<lambda>rid. dict_get (g_remaining st) rid 0"
  show ?case
  proof (cases "dict_get fd (product_id task) 0 = 0")
    case True
    from Cons.IH [of st] obtain new where
      "g_allocations (greedy_assign self fd ts st) = g_allocations st @ new"
      "greedy_rule (resources self) fd ?rem ts new" by blast
    with True show ?thesis by (auto intro: greedy_rule.no_forecast)
  next
    case False
    show ?thesis
    proof (cases "best_resource self (g_remaining st) task")
      case None
      from Cons.IH [of st] obtain new where new:
        "g_allocations (greedy_assign self fd ts st) = g_allocations st @ new"
        "greedy_rule (resources self) fd ?rem ts new" by blast
      have "\<forall>r\<in>set (resources self). ?rem (resource_id r) < duration_hours task"
        using best_resource_None [OF None] by blast
      with False new have "greedy_rule (resources self) fd ?rem (task # ts) new"
        by (intro greedy_rule.no_capacity)
      with False None new show ?thesis by auto
    next
      case (Some best)
      define hours where
        "hours = min (duration_hours task * dict_get fd (product_id task) 0) (?rem (resource_id best))"
      define st' where
        "st' = \<lparr>g_allocations = g_allocations st @ [(task, best, hours)],
                g_remaining = AList.update (resource_id best) (?rem (resource_id best) - hours)
                                (g_remaining st)\<rparr>"
      have step: "greedy_assign self fd (task # ts) st = greedy_assign self fd ts st'"
        using False Some by (simp add: Let_def st'_def hours_def)
      have rem': "(\<lambda>rid. dict_get (g_remaining st') rid 0)
                    = ?rem(resource_id best := ?rem (resource_id best) - hours)"
        by (rule ext) (simp add: st'_def dict_get_update)
      from Cons.IH [of st'] obtain new where new:
        "g_allocations (greedy_assign self fd ts st') = g_allocations st' @ new"
        "greedy_rule (resources self) fd (\<lambda>rid. dict_get (g_remaining st') rid 0) ts new"
        by blast
      have "greedy_rule (resources self) fd ?rem (task # ts) ((task, best, hours) # new)"
      proof (rule greedy_rule.cheapest)
        show "dict_get fd (product_id task) 0 \<noteq> 0" by (rule False)
        show "best \<in> set (resources self)" by (rule best_resource_Some(1) [OF Some])
        show "duration_hours task \<le> ?rem (resource_id best)"
          by (rule best_resource_Some(2) [OF Some])
        show "\<forall>r\<in>set (resources self). duration_hours task \<le> ?rem (resource_id r) \<longrightarrow>
                 res_cost_per_hour best \<le> res_cost_per_hour r"
          using best_resource_Some(3) [OF Some] by blast
        show "hours = min (duration_hours task * dict_get fd (product_id task) 0) (?rem (resource_id best))"
          by (rule hours_def)
        show "greedy_rule (resources self) fd (?rem(resource_id best := ?rem (resource_id best) - hours)) ts new"
          using new(2) unfolding rem' .
      qed
      moreover have "g_allocations (greedy_assign self fd (task # ts) st)
                       = g_allocations st @ (task, best, hours) # new"
        unfolding step using new(1) by (simp add: st'_def)
      ultimately show ?thesis by blast
    qed
  qed
qed

lemma sorted_by_reverse_descending:
  "sorted_wrt (\<lambda>a b. k b \<le> k a) (sorted_by_reverse k xs)"
proof -
  have "sorted (map k (sort_key k (rev xs)))" by simp
  then have "sorted_wrt (\<lambda>a b. k a \<le> k b) (sort_key k (rev xs))"
    by (simp add: sorted_map)
  then show ?thesis
    by (simp add: sorted_by_reverse_def sorted_wrt_rev)
qed

lemma sorted_by_reverse_set: "set (sorted_by_reverse k xs) = set xs"
  and sorted_by_reverse_length: "length (sorted_by_reverse k xs) = length xs"
  by (simp_all add: sorted_by_reverse_def)


lemma ex_two_resource_run:
  "res_optimize False ex_solver ex_clock ex_two_resource_optimizer [(''P1'', 2)] 10 True
     = Inr ex_two_resource_result"
  by code_simp

text \<open>
  Claim C10. When the solver is unavailable, \<open>optimize\<close> returns the same for
  \<open>minimize_cost = true\<close> and \<open>minimize_cost = false\<close> on every input, raised errors
  included, and also when the clock reads differently during the two calls, up to the
  measured time: it returns what \<open>_simple_optimization\<close> returns, which is not given
  the flag. Whenever a result is returned, whatever the flag, \<open>success\<close> is true, the
  objective value is the sum of the allocated hours of the assignments (not a cost and
  not a priority-weighted sum), and the assignments are the roundings of allocations
  made by the greedy rule with the tasks in descending priority order: every task with
  a forecast goes to a resource that is cheapest among those with the task's duration
  left, and is passed over only when there is none.
\<close>

theorem fallback_ignores_minimize_cost:
  "res_optimize False solve now self fd h True = res_optimize False solve now self fd h False
   \<and> res_optimize False solve now self fd h minimize_cost = simple_optimization now self fd h
   \<and> erase_time_res (res_optimize False solve now self fd h True)
       = erase_time_res (res_optimize False solve now' self fd h False)
   \<and> (\<forall>res. res_optimize False solve now self fd h minimize_cost = Inr res \<longrightarrow>
         success res
         \<and> objective_value res = sum_list (map allocated_hours (assignments res))
         \<and> (\<exists>allocs. assignments res = map assignment_of allocs
               \<and> greedy_rule (resources self) fd
                    (\<lambda>rid. dict_get (initial_remaining_capacity self h) rid 0)
                    (sorted_by_reverse priority (tasks self)) allocs))"
proof (intro conjI allI impI)
  show "res_optimize False solve now self fd h True = res_optimize False solve now self fd h False"
    by (simp add: res_optimize_def)
  show "res_optimize False solve now self fd h minimize_cost = simple_optimization now self fd h"
    by (simp add: res_optimize_def)
  show "erase_time_res (res_optimize False solve now self fd h True)
       = erase_time_res (res_optimize False solve now' self fd h False)"
    by (simp add: erase_time_res_def res_optimize_def simple_optimization_def Let_def
        split: sum.splits)
next
  fix res
  assume "res_optimize False solve now self fd h minimize_cost = Inr res"
  then have run: "simple_optimization now self fd h = Inr res"
    by (simp add: res_optimize_def)
  then show "success res"
    by (auto simp: simple_optimization_def Let_def split: sum.splits)
  from run show "objective_value res = sum_list (map allocated_hours (assignments res))"
    by (auto simp: simple_optimization_def Let_def split: sum.splits)
  from run have asg: "assignments res = map assignment_of (g_allocations (greedy_run self fd h))"
    by (auto simp: simple_optimization_def Let_def split: sum.splits)
  have "greedy_rule (resources self) fd
          (\<lambda>rid. dict_get (initial_remaining_capacity self h) rid 0)
          (sorted_by_reverse priority (tasks self)) (g_allocations (greedy_run self fd h))"
    using greedy_assign_follows_rule [of self fd "sorted_by_reverse priority (tasks self)"
        "\<lparr>g_allocations = [], g_remaining = initial_remaining_capacity self h\<rparr>"]
    by (simp add: greedy_run_def)
  with asg show "\<exists>allocs. assignments res = map assignment_of allocs
               \<and> greedy_rule (resources self) fd
                    (\<lambda>rid. dict_get (initial_remaining_capacity self h) rid 0)
                    (sorted_by_reverse priority (tasks self)) allocs"
    by blast
qed

theorem fallback_ignores_minimize_cost_witness:
  "res_optimize False ex_solver ex_clock ex_two_resource_optimizer [(''P1'', 2)] 10 True
     = Inr ex_two_resource_result
   \<and> res_optimize False ex_solver ex_clock ex_two_resource_optimizer [(''P1'', 2)] 10 False
     = Inr ex_two_resource_result
   \<and> success ex_two_resource_result
   \<and> objective_value ex_two_resource_result
       = sum_list (map allocated_hours (assignments ex_two_resource_result))
   \<and> (\<exists>allocs. assignments ex_two_resource_result = map assignment_of allocs
         \<and> greedy_rule (resources ex_two_resource_optimizer) [(''P1'', 2)]
              (\<lambda>rid. dict_get (initial_remaining_capacity ex_two_resource_optimizer 10) rid 0)
              (sorted_by_reverse priority (tasks ex_two_resource_optimizer)) allocs)
   \<and> map a_resource_id (assignments ex_two_resource_result) = [''R2'']"
proof -
  note inst = fallback_ignores_minimize_cost
    [of ex_solver ex_clock ex_two_resource_optimizer "[(''P1'', 2)]" 10 True ex_clock]
  from inst have same: "res_optimize False ex_solver ex_clock ex_two_resource_optimizer [(''P1'', 2)] 10 False
     = Inr ex_two_resource_result"
    using ex_two_resource_run by simp
  from inst ex_two_resource_run
  have rest: "success ex_two_resource_result
     \<and> objective_value ex_two_resource_result
       = sum_list (map allocated_hours (assignments ex_two_resource_result))
     \<and> (\<exists>allocs. assignments ex_two_resource_result = map assignment_of allocs
         \<and> greedy_rule (resources ex_two_resource_optimizer) [(''P1'', 2)]
              (\<lambda>rid. dict_get (initial_remaining_capacity ex_two_resource_optimizer 10) rid 0)
              (sorted_by_reverse priority (tasks ex_two_resource_optimizer)) allocs)"
    by blast
  have "map a_resource_id (assignments ex_two_resource_result) = [''R2'']"
    by (simp add: ex_two_resource_result_def)
  with same rest ex_two_resource_run show ?thesis by blast
qed


section \<open>Repeated calls\<close>

text \<open>Every loop of a call returns the instance it was given, and leaves in the frame
  what the loop of the first part computes. So a call returns the result of the first
  part and the instance unchanged, also when it raises.\<close>

subsection \<open>The scheduler\<close>

lemma run_assign_employees_eq:
  "run_assign_employees d req es n fr = fr\<lparr>fr_locals := assign_employees d req es n (fr_locals fr)\<rparr>"
  by (induction es arbitrary: n fr) simp_all

lemma run_assign_requirements_eq:
  "run_assign_requirements d emps reqs fr
     = fr\<lparr>fr_locals := assign_requirements d emps reqs (fr_locals fr)\<rparr>"
  by (induction reqs arbitrary: fr) (simp_all add: run_assign_employees_eq)

lemma run_employee_utilization_eq:
  "run_employee_utilization es acc fr
     = (compute_employee_utilization (l_employee_hours (fr_locals fr)) es acc, fr)"
  by (induction es arbitrary: acc) simp_all

lemma run_sched_optimize_eq:
  "run_sched_optimize now h d mc self = (sched_optimize now self h d mc, self)"
  by (simp add: run_sched_optimize_def sched_optimize_def sched_assign_def
      sched_sorted_employees_def sched_sorted_requirements_def
      run_assign_requirements_eq run_employee_utilization_eq Let_def split: sum.splits)

subsection \<open>The resource optimizer\<close>

lemma run_greedy_assign_eq:
  "run_greedy_assign fd ts fr
     = fr\<lparr>fr_locals := greedy_assign (fr_self fr) fd ts (fr_locals fr)\<rparr>"
proof (induction ts arbitrary: fr)
  case Nil
  show ?case by simp
next
  case (Cons task ts)
  show ?case by (simp add: Let_def Cons.IH split: option.splits)
qed

lemma run_greedy_utilization_eq:
  "run_greedy_utilization h rs util fr
     = (greedy_utilization h (g_remaining (fr_locals fr)) rs util, fr)"
  by (induction rs arbitrary: util) (simp_all add: Let_def)

lemma run_simple_optimization_eq:
  "run_simple_optimization now fd h self = (simple_optimization now self fd h, self)"
  by (simp add: run_simple_optimization_def simple_optimization_def greedy_run_def
      run_greedy_assign_eq run_greedy_utilization_eq Let_def split: sum.splits)

lemma run_extract_tasks_eq:
  "run_extract_tasks out resource ts tot fr
     = (snd (extract_tasks out resource ts (fst (fr_locals fr), tot)),
        fr\<lparr>fr_locals := (fst (extract_tasks out resource ts (fst (fr_locals fr), tot)),
                         snd (fr_locals fr))\<rparr>)"
  by (induction ts arbitrary: tot fr) (simp_all add: Let_def)

lemma run_extract_results_self:
  "fr_self (snd (run_extract_results out h rs fr)) = fr_self fr"
proof (induction rs arbitrary: fr)
  case Nil
  show ?case by simp
next
  case (Cons r rs)
  show ?case by (simp add: run_extract_tasks_eq Cons.IH)
qed

lemma run_extract_results_step:
  assumes "fr_locals fr = (allocs, util)" and "capacity r * of_int h \<noteq> 0"
  shows "run_extract_results out h (r # rs) fr
           = run_extract_results out h rs
               (fr\<lparr>fr_locals :=
                  (fst (extract_tasks out r (tasks (fr_self fr)) (allocs, 0)),
                   AList.update (resource_id r)
                     (round2 (snd (extract_tasks out r (tasks (fr_self fr)) (allocs, 0))
                              / (capacity r * of_int h) * 100)) util)\<rparr>)"
    and "extract_results out self h (r # rs) (allocs, util)
           = extract_results out self h rs
               (fst (extract_tasks out r (tasks self) (allocs, 0)),
                AList.update (resource_id r)
                  (round2 (snd (extract_tasks out r (tasks self) (allocs, 0))
                           / (capacity r * of_int h) * 100)) util)"
  using assms by (simp_all add: run_extract_tasks_eq split: prod.splits)

lemma run_extract_results_stop:
  assumes "fr_locals fr = (allocs, util)" and "capacity r * of_int h = 0"
  shows "fst (run_extract_results out h (r # rs) fr) = Inl ZeroDivisionError"
    and "extract_results out self h (r # rs) (allocs, util) = Inl ZeroDivisionError"
  using assms by (simp_all add: run_extract_tasks_eq split: prod.splits)

lemma run_extract_results_value:
  "fr_locals fr = (allocs, util) \<Longrightarrow>
   fst (run_extract_results out h rs fr)
     = (case extract_results out (fr_self fr) h rs (allocs, util) of
          Inl err \<Rightarrow> Inl err | Inr acc \<Rightarrow> Inr ())"
proof (induction rs arbitrary: fr allocs util)
  case Nil
  then show ?case by simp
next
  case (Cons r rs)
  show ?case
  proof (cases "capacity r * of_int h = 0")
    case True
    from run_extract_results_stop [OF Cons.prems True] show ?thesis by simp
  next
    case False
    let ?l = "(fst (extract_tasks out r (tasks (fr_self fr)) (allocs, 0)),
               AList.update (resource_id r)
                 (round2 (snd (extract_tasks out r (tasks (fr_self fr)) (allocs, 0))
                          / (capacity r * of_int h) * 100)) util)"
    have "fr_locals (fr\<lparr>fr_locals := ?l\<rparr>) = ?l" by simp
    from Cons.IH [OF this] run_extract_results_step [OF Cons.prems False]
    show ?thesis by simp
  qed
qed

lemma run_extract_results_locals:
  "fr_locals fr = (allocs, util) \<Longrightarrow>
   extract_results out (fr_self fr) h rs (allocs, util) = Inr acc \<Longrightarrow>
   fr_locals (snd (run_extract_results out h rs fr)) = acc"
proof (induction rs arbitrary: fr allocs util)
  case Nil
  then show ?case by simp
next
  case (Cons r rs)
  show ?case
  proof (cases "capacity r * of_int h = 0")
    case True
    from run_extract_results_stop(2) [OF Cons.prems(1) True] Cons.prems(2)
    show ?thesis by simp
  next
    case False
    let ?l = "(fst (extract_tasks out r (tasks (fr_self fr)) (allocs, 0)),
               AList.update (resource_id r)
                 (round2 (snd (extract_tasks out r (tasks (fr_self fr)) (allocs, 0))
                          / (capacity r * of_int h) * 100)) util)"
    have l: "fr_locals (fr\<lparr>fr_locals := ?l\<rparr>) = ?l" by simp
    have "extract_results out (fr_self (fr\<lparr>fr_locals := ?l\<rparr>)) h rs ?l = Inr acc"
      using run_extract_results_step(2) [OF Cons.prems(1) False, of out "fr_self fr" rs]
        Cons.prems(2) by simp
    from Cons.IH [OF l this] run_extract_results_step(1) [OF Cons.prems(1) False]
    show ?thesis by simp
  qed
qed

lemma run_res_optimize_eq:
  "run_res_optimize pa solve now fd h mc self = (res_optimize pa solve now self fd h mc, self)"
proof (cases pa)
  case False
  then show ?thesis
    by (simp add: run_res_optimize_def res_optimize_def run_simple_optimization_eq)
next
  case True
  let ?out = "solve (build_problem self fd h mc)"
  define fr0 :: "(ResourceOptimizer, allocation list \<times> (string \<times> rat) list) frame"
    where "fr0 = \<lparr>fr_self = self, fr_locals = ([], [])\<rparr>"
  obtain x fr1 where run: "run_extract_results ?out h (resources self) fr0 = (x, fr1)"
    by (cases "run_extract_results ?out h (resources self) fr0")
  have l0: "fr_locals fr0 = ([], [])" and s0: "fr_self fr0 = self"
    by (simp_all add: fr0_def)
  have self: "fr_self fr1 = self"
    using run_extract_results_self [of ?out h "resources self" fr0] run s0 by simp
  have res: "x = (case extract_results ?out self h (resources self) ([], []) of
          Inl err \<Rightarrow> Inl err | Inr acc \<Rightarrow> Inr ())"
    using run_extract_results_value [OF l0, of ?out h "resources self"] run s0 by simp
  show ?thesis
  proof (cases "extract_results ?out self h (resources self) ([], [])")
    case (Inl err)
    with res have "x = Inl err" by simp
    with self Inl True run show ?thesis
      by (simp add: run_res_optimize_def res_optimize_def Let_def fr0_def [symmetric] s0)
  next
    case (Inr acc)
    with res have r: "x = Inr ()" by simp
    have l: "fr_locals fr1 = acc"
      using run_extract_results_locals [OF l0, of ?out h "resources self" acc] Inr run s0
      by simp
    obtain allocs util where acc: "acc = (allocs, util)" by (cases acc)
    from r l self Inr True run acc show ?thesis
      by (simp add: run_res_optimize_def res_optimize_def Let_def fr0_def [symmetric] s0)
  qed
qed

subsection \<open>The capacity planner\<close>

lemma run_capacity_forecasts_self:
  "fr_self (snd (run_capacity_forecasts tu i fs fr)) = fr_self fr"
  by (induction fs arbitrary: i fr) (simp_all split: sum.splits)

lemma run_capacity_forecasts_value:
  "fst (run_capacity_forecasts tu i fs fr)
     = (case capacity_forecasts (fr_self fr) tu i fs (fr_locals fr) of
          Inl err \<Rightarrow> Inl err | Inr acc \<Rightarrow> Inr ())"
proof (induction fs arbitrary: i fr)
  case Nil
  show ?case by simp
next
  case (Cons f fs)
  show ?case
  proof (cases "capacity_forecast (fr_self fr) tu i f")
    case (Inl err)
    then show ?thesis by simp
  next
    case (Inr fc)
    with Cons.IH [of "Suc i" "fr\<lparr>fr_locals := fr_locals fr @ [fc]\<rparr>"]
    show ?thesis by simp
  qed
qed

lemma run_capacity_forecasts_locals:
  "capacity_forecasts (fr_self fr) tu i fs (fr_locals fr) = Inr acc
   \<Longrightarrow> fr_locals (snd (run_capacity_forecasts tu i fs fr)) = acc"
proof (induction fs arbitrary: i fr)
  case Nil
  then show ?case by simp
next
  case (Cons f fs)
  show ?case
  proof (cases "capacity_forecast (fr_self fr) tu i f")
    case (Inl err)
    with Cons.prems show ?thesis by simp
  next
    case (Inr fc)
    with Cons.prems Cons.IH [of "fr\<lparr>fr_locals := fr_locals fr @ [fc]\<rparr>" "Suc i"]
    show ?thesis by simp
  qed
qed

lemma run_plan_capacity_eq:
  "run_plan_capacity now fs n tu rpu self = (plan_capacity now self fs n tu rpu, self)"
proof (cases "analyze_trend self")
  case (Inl err)
  then show ?thesis by (simp add: run_plan_capacity_def plan_capacity_def)
next
  case (Inr trend)
  define fr0 :: "(CapacityPlanner, CapacityForecast list) frame"
    where "fr0 = \<lparr>fr_self = self, fr_locals = []\<rparr>"
  obtain x fr1 where run: "run_capacity_forecasts tu 0 (py_prefix n fs) fr0 = (x, fr1)"
    by (cases "run_capacity_forecasts tu 0 (py_prefix n fs) fr0")
  have l0: "fr_locals fr0 = []" and s0: "fr_self fr0 = self"
    by (simp_all add: fr0_def)
  have self: "fr_self fr1 = self"
    using run_capacity_forecasts_self [of tu 0 "py_prefix n fs" fr0] run s0 by simp
  have res: "x = (case capacity_forecasts self tu 0 (py_prefix n fs) [] of
          Inl err \<Rightarrow> Inl err | Inr acc \<Rightarrow> Inr ())"
    using run_capacity_forecasts_value [of tu 0 "py_prefix n fs" fr0] run s0 l0 by simp
  show ?thesis
  proof (cases "capacity_forecasts self tu 0 (py_prefix n fs) []")
    case (Inl err)
    with res have "x = Inl err" by simp
    with self Inl Inr run show ?thesis
      by (simp add: run_plan_capacity_def plan_capacity_def Let_def fr0_def [symmetric])
  next
    case fcs: (Inr acc)
    with res have r: "x = Inr ()" by simp
    have l: "fr_locals fr1 = acc"
      using run_capacity_forecasts_locals [of fr0 tu 0 "py_prefix n fs" acc] fcs run s0 l0
      by simp
    from r l self fcs Inr run show ?thesis
      by (simp add: run_plan_capacity_def plan_capacity_def Let_def fr0_def [symmetric]
          split: sum.splits)
  qed
qed


subsection \<open>The claim\<close>

text \<open>
  Claim C8. Two calls in a row of \<open>optimize\<close> of the resource optimizer (on either
  path, so in particular of the greedy fallback), of \<open>optimize\<close> of the scheduler, or
  of \<open>plan_capacity\<close>, on one instance, with the same arguments and no registration in
  between, leave the instance as it was and return identical results (or raise the
  same error): the same assignments in the same order, the same utilization numbers.
  The inputs of a call are the instance, the arguments, the readings of the clock and,
  on the exact path, the solver; nothing else passes from one call to the next. When
  the clock reads differently during the second call, the two results still agree in
  every field but the measured execution time.
\<close>

theorem repeated_calls_agree:
  "calls_agree id (run_res_optimize pulp_available solve now fd h minimize_cost)
       (run_res_optimize pulp_available solve now fd h minimize_cost) self
   \<and> calls_agree id (run_sched_optimize now horizon shift_duration minimize_cost)
       (run_sched_optimize now horizon shift_duration minimize_cost) scheduler
   \<and> calls_agree id (run_plan_capacity now forecast_list months target_utilization revenue_per_unit)
       (run_plan_capacity now forecast_list months target_utilization revenue_per_unit) planner
   \<and> calls_agree erase_time_res (run_res_optimize pulp_available solve now fd h minimize_cost)
       (run_res_optimize pulp_available solve now' fd h minimize_cost) self
   \<and> calls_agree erase_time_sched (run_sched_optimize now horizon shift_duration minimize_cost)
       (run_sched_optimize now' horizon shift_duration minimize_cost) scheduler
   \<and> calls_agree erase_time_plan
       (run_plan_capacity now forecast_list months target_utilization revenue_per_unit)
       (run_plan_capacity now' forecast_list months target_utilization revenue_per_unit) planner"
proof (intro conjI)
  show "calls_agree erase_time_res (run_res_optimize pulp_available solve now fd h minimize_cost)
       (run_res_optimize pulp_available solve now' fd h minimize_cost) self"
    by (simp add: calls_agree_def run_res_optimize_eq erase_time_res_def res_optimize_def
        simple_optimization_def Let_def split: sum.splits prod.splits)
  show "calls_agree erase_time_sched (run_sched_optimize now horizon shift_duration minimize_cost)
       (run_sched_optimize now' horizon shift_duration minimize_cost) scheduler"
    by (simp add: calls_agree_def run_sched_optimize_eq erase_time_sched_def sched_optimize_def
        Let_def split: sum.splits)
  show "calls_agree erase_time_plan
       (run_plan_capacity now forecast_list months target_utilization revenue_per_unit)
       (run_plan_capacity now' forecast_list months target_utilization revenue_per_unit) planner"
    by (simp add: calls_agree_def run_plan_capacity_eq erase_time_plan_def plan_capacity_def
        Let_def split: sum.splits)
qed (simp_all add: calls_agree_def run_res_optimize_eq run_sched_optimize_eq run_plan_capacity_eq)

text \<open>At a concrete optimizer: what a call returns, that a slower second call differs in
  the measured time, and that a registration between two calls changes the result.\<close>

lemma ex_repeated_run:
  "run_res_optimize False ex_solver ex_clock [(''P1'', 2)] 10 True ex_optimizer
     = (Inr \<lparr>success = True, objective_value = 4,
          assignments =
            [\<lparr>a_task_id = ''T1'', a_product_id = ''P1'', a_resource_id = ''R1'',
              a_resource_type = ''machine'', allocated_hours = 4, a_cost = 20\<rparr>],
          utilization = [(''R1'', 8)],
          recommendations = [UnderUtilized ''R1'' 8], execution_time = 1\<rparr>, ex_optimizer)"
  by code_simp

lemma ex_elapsed_time_differs:
  "fst (run_res_optimize False ex_solver ex_slow_clock [(''P1'', 2)] 10 True ex_optimizer)
     \<noteq> fst (run_res_optimize False ex_solver ex_clock [(''P1'', 2)] 10 True ex_optimizer)"
  by code_simp

lemma ex_registration_changes_result:
  "fst (run_res_optimize False ex_solver ex_clock [(''P1'', 2)] 10 True
          (add_resource ex_cheap_resource ex_optimizer))
     \<noteq> fst (run_res_optimize False ex_solver ex_clock [(''P1'', 2)] 10 True ex_optimizer)"
  by code_simp

theorem repeated_calls_agree_witness:
  "calls_agree id (run_res_optimize False ex_solver ex_clock [(''P1'', 2)] 10 True)
       (run_res_optimize False ex_solver ex_clock [(''P1'', 2)] 10 True) ex_optimizer
   \<and> calls_agree erase_time_res (run_res_optimize False ex_solver ex_clock [(''P1'', 2)] 10 True)
       (run_res_optimize False ex_solver ex_slow_clock [(''P1'', 2)] 10 True) ex_optimizer
   \<and> snd (run_res_optimize False ex_solver ex_clock [(''P1'', 2)] 10 True ex_optimizer)
       = ex_optimizer"
  using repeated_calls_agree [of False ex_solver ex_clock "[(''P1'', 2)]" 10 True ex_optimizer
      _ _ _ _ _ _ _ _ ex_slow_clock]
  by (simp add: ex_repeated_run)


section \<open>Capacity planning: the trend\<close>

text \<open>
  Claim C3 says that the older window is the first half of the sorted history, or the
  first third when the history exceeds 30 points. The code takes the first half when
  the history exceeds 30 points and the first third otherwise. On the six points
  10, 10, 40, 10, 10, 10 the code compares the mean 15 of all points with the mean 10 of
  the first two and answers growing; the rule of the claim compares it with the mean 20 of
  the first three and answers declining.
\<close>

theorem trend_windows_differ:
  "analyze_trend ex_planner = Inr ''growing'' \<and> spec_analyze_trend ex_planner = ''declining''"
  by code_simp

text \<open>
  Claim C3, amended. \<open>_analyze_trend\<close> never raises. It returns \<open>insufficient_data\<close> for
  a history of fewer than 3 points. Otherwise, with the history sorted by date, it
  compares the mean of the most recent 30 points (all points if there are fewer) with
  the mean of the first half of the history when the history exceeds 30 points, and of
  the first third otherwise; the change is \<open>(recent_avg - older_avg) / older_avg * 100\<close>
  when the older mean is positive and 0 otherwise; it returns growing when the change
  is above 10, declining when it is below -10, and stable otherwise.
\<close>

theorem analyze_trend_characterised:
  "analyze_trend self =
   Inr (let hist = sorted_by fst (demand_history self); n = length hist
        in if n < 3 then ''insufficient_data''
           else
             (let recent_avg = average (map snd (drop (n - 30) hist));
                  older_avg = average (map snd (take (if n > 30 then n div 2 else n div 3) hist));
                  change_pct = (if older_avg > 0
                                then (recent_avg - older_avg) / older_avg * 100 else 0)
              in if change_pct > 10 then ''growing''
                 else if change_pct < - 10 then ''declining''
                 else ''stable''))"
proof (cases "length (demand_history self) < 3")
  case True
  then show ?thesis by (simp add: analyze_trend_def sorted_by_def Let_def)
next
  case False
  define hist where "hist = sorted_by fst (demand_history self)"
  have n: "length hist = length (demand_history self)"
    by (simp add: hist_def sorted_by_def)
  with False have n3: "3 \<le> length hist" by simp
  have rw: "recent_window hist = drop (length hist - 30) hist"
    by (simp add: recent_window_def)
  have ow: "older_window hist
              = take (if length hist > 30 then length hist div 2 else length hist div 3) hist"
    by (simp add: older_window_def)
  from n3 have rne: "recent_window hist \<noteq> []" unfolding rw by auto
  from n3 have one: "older_window hist \<noteq> []" unfolding ow by auto
  have m1: "mean (map snd (recent_window hist)) = Inr (average (map snd (recent_window hist)))"
    using rne by (simp add: mean_def average_def)
  have m2: "mean (map snd (older_window hist)) = Inr (average (map snd (older_window hist)))"
    using one by (simp add: mean_def average_def)
  have "analyze_trend self = Inr (classify_change (average (map snd (recent_window hist)))
                                    (average (map snd (older_window hist))))"
    using False rne one m1 m2 by (simp add: analyze_trend_def Let_def hist_def [symmetric])
  then show ?thesis using False n
    by (simp add: classify_change_def Let_def hist_def [symmetric] rw ow)
qed



end
